theory Spec2Isabelle
  imports Complex_Main "HOL-Library.Word"
begin

unbundle bit_operations_syntax

section \<open>The echo effect of alc/effects/echo.cpp\<close>

text \<open>
  The effect state \<open>EchoState\<close> and its three operations \<open>deviceUpdate\<close>, \<open>update\<close> and
  \<open>process\<close> are embedded as functions on a record.

  Conventions of the embedding:
  \<^item> \<open>unsigned int\<close> is \<open>32 word\<close> and \<open>size_t\<close> is \<open>64 word\<close>; all index arithmetic wraps
    as in the source.
  \<^item> A control-rate \<open>float\<close> (a delay time, the damping, the spread, the sample rate as a
    float, a maximum delay) is the real number it denotes. The conversion of the sample
    rate to \<open>float\<close> and the arithmetic whose result is converted to an integer (the
    products of a delay and the rate, the addition of one half) are rounded to single
    precision by \<open>to_float\<close>, each operation on its own (no fused multiply-add). The
    arithmetic that only feeds the filter and the panning (the shelf gain, the normalised
    frequency, the direction of the spread) is over the reals.
  \<^item> Audio samples and gains are kept abstract (a type variable \<open>'a\<close> with the operations
    the code applies to them), so nothing proved about the processing loop depends on
    the arithmetic of \<open>float\<close>.
  \<^item> A \<open>std::vector\<close>, \<open>std::array\<close> or \<open>std::span\<close> is a list; an access outside its
    bounds is the error \<open>OutOfBounds\<close>.
  \<^item> Allocation in \<open>deviceUpdate\<close> is taken to succeed.
\<close>

type_synonym c_uint = "32 word"
type_synonym size_t = "64 word"

datatype error = OutOfBounds | BadVariantAccess

subsection \<open>Helpers declared outside echo.cpp\<close>

text \<open>
  Modelled from the spec: \<open>float2uint\<close> is declared in alnumeric.h, which is not among the
  sources. It is the conversion of a float to \<open>unsigned int\<close>; the spec uses its result on
  the integral value of \<open>round\<close> as that integer. It is taken as the C++ conversion, which
  discards the fractional part. (A value outside the range of the target type is undefined
  in C++; here it wraps.)
\<close>
definition float2uint :: "real \<Rightarrow> c_uint" where
  "float2uint f = word_of_int (if 0 \<le> f then \<lfloor>f\<rfloor> else \<lceil>f\<rceil>)"

text \<open>\<open>std::round\<close> of the C++ library: to the nearest integer, halfway cases away from zero.\<close>
definition std_round :: "real \<Rightarrow> real" where
  "std_round x = (if 0 \<le> x then of_int \<lfloor>x + 1/2\<rfloor> else of_int \<lceil>x - 1/2\<rceil>)"

subsection \<open>Single precision\<close>

text \<open>
  IEEE 754 binary32 with the default rounding (to nearest, ties to even). \<open>float_ulp x\<close> is
  the distance between neighbouring floats at the magnitude \<open>x\<close> of a normal number: the
  power of two \<open>u\<close> with \<open>2 ^ 23 \<le> x / u < 2 ^ 24\<close>. Below the normal range the distance
  stays at \<open>2 ^ -149\<close>. Values beyond the largest finite float are not mapped to infinity;
  what is proved of a value that is converted to an integer bounds it by \<open>2 ^ 32\<close>.
\<close>
definition round_even :: "real \<Rightarrow> int" where
  "round_even x =
    (let f = \<lfloor>x\<rfloor>
     in if x - of_int f < 1/2 then f
        else if 1/2 < x - of_int f then f + 1
        else if even f then f else f + 1)"

function float_ulp :: "real \<Rightarrow> real" where
  "float_ulp x =
    (if x \<le> 0 then 1
     else if x < 2 ^ 23 then float_ulp (2 * x) / 2
     else if 2 ^ 24 \<le> x then 2 * float_ulp (x / 2)
     else 1)"
  by pat_completeness auto
termination
proof (relation "measure (\<lambda>x. nat \<bar>\<lfloor>log 2 x\<rfloor> - 23\<bar>)", goal_cases)
  case 1
  show ?case by simp
next
  case (2 x)
  then have x: "0 < x" "x < 2 ^ 23" by simp_all
  have l: "log 2 x < 23" using x by (simp add: log_less_iff powr_numeral)
  then have f: "\<lfloor>log 2 x\<rfloor> \<le> 22" by linarith
  have "log 2 (2 * x) = 1 + log 2 x" using x by (simp add: log_mult)
  then have "\<lfloor>log 2 (2 * x)\<rfloor> = \<lfloor>log 2 x\<rfloor> + 1" by simp
  with f show ?case by simp
next
  case (3 x)
  then have x: "0 < x" "2 ^ 24 \<le> x" by simp_all
  have l: "24 \<le> log 2 x" using x by (simp add: le_log_iff powr_numeral)
  then have f: "24 \<le> \<lfloor>log 2 x\<rfloor>" by linarith
  have "log 2 (x / 2) = log 2 x - 1" using x by (simp add: log_divide)
  then have "\<lfloor>log 2 (x / 2)\<rfloor> = \<lfloor>log 2 x\<rfloor> - 1" by simp
  with f show ?case by simp
qed

declare float_ulp.simps [simp del]

text \<open>The float nearest to a real number.\<close>
definition to_float :: "real \<Rightarrow> real" where
  "to_float x =
    (let u = max (float_ulp \<bar>x\<bar>) (1 / 2 ^ 149)
     in of_int (round_even (x / u)) * u)"

text \<open>The product and the sum of two floats, and \<open>static_cast<float>\<close> of an \<open>unsigned int\<close>.\<close>
definition fmul :: "real \<Rightarrow> real \<Rightarrow> real" where
  "fmul x y = to_float (x * y)"

definition fadd :: "real \<Rightarrow> real \<Rightarrow> real" where
  "fadd x y = to_float (x + y)"

definition uint2float :: "c_uint \<Rightarrow> real" where
  "uint2float w = to_float (real (unat w))"

function next_pow2_from :: "nat \<Rightarrow> nat \<Rightarrow> nat" where
  "next_pow2_from p n = (if n \<le> p \<or> p = 0 then p else next_pow2_from (2 * p) n)"
  by pat_completeness auto
termination
  by (relation "measure (\<lambda>(p, n). n - p)") auto

declare next_pow2_from.simps [simp del]

text \<open>
  Modelled from the spec: \<open>NextPowerOf2\<close> is declared in alnumeric.h, which is not among the
  sources. The spec has it "round up to the next power of two", the result being "the
  smallest power of two \<ge>" its argument. The result is an \<open>unsigned int\<close>.
\<close>
definition NextPowerOf2 :: "c_uint \<Rightarrow> c_uint" where
  "NextPowerOf2 v = word_of_nat (next_pow2_from 1 (unat v))"

datatype BiquadType = HighShelf | LowShelf | Peaking | LowPass | HighPass | BandPass

text \<open>
  Modelled from the spec: \<open>BiquadFilter\<close> is declared in core/filters/biquad.h, which is not
  among the sources. The spec has it "a two-pole shelving filter with persistent internal
  state (two accumulator terms)", with "explicit get/set of its two-term running state",
  whose coefficients are set by the shelf parameters: "only its coefficients change, not
  its history". The coefficients are kept abstract; the function that computes them from
  the parameters is an argument \<open>calc\<close>.
\<close>
record ('a, 'c) BiquadFilter =
  coeffs :: 'c
  mZ1 :: 'a
  mZ2 :: 'a

definition setParamsFromSlope ::
  "(BiquadType \<Rightarrow> real \<Rightarrow> real \<Rightarrow> real \<Rightarrow> 'c) \<Rightarrow> BiquadType \<Rightarrow> real \<Rightarrow> real \<Rightarrow> real
    \<Rightarrow> ('a, 'c) BiquadFilter \<Rightarrow> ('a, 'c) BiquadFilter" where
  "setParamsFromSlope calc type f0norm gain slope flt = flt\<lparr>coeffs := calc type f0norm gain slope\<rparr>"

definition getComponents :: "('a, 'c) BiquadFilter \<Rightarrow> 'a \<times> 'a" where
  "getComponents flt = (mZ1 flt, mZ2 flt)"

definition setComponents :: "'a \<Rightarrow> 'a \<Rightarrow> ('a, 'c) BiquadFilter \<Rightarrow> ('a, 'c) BiquadFilter" where
  "setComponents z1 z2 flt = flt\<lparr>mZ1 := z1, mZ2 := z2\<rparr>"

subsection \<open>The state\<close>

record 'a OutGains =
  Current :: "'a list"
  Target :: "'a list"

text \<open>\<open>mOutTarget\<close> is the member inherited from \<open>EffectState\<close>.\<close>
record ('a, 'c, 'b) EchoState =
  mSampleBuffer :: "'a list"
  mDelayTap :: "size_t \<times> size_t"
  mOffset :: size_t
  mGains :: "'a OutGains \<times> 'a OutGains"
  mFilter :: "('a, 'c) BiquadFilter"
  mFeedGain :: 'a
  mTempBuffer :: "'a list \<times> 'a list"
  mOutTarget :: 'b

record DeviceBase =
  mSampleRate :: c_uint

record ContextBase =
  mDevice :: DeviceBase

record 'a EffectSlot =
  Gain :: 'a

record 'b MixParams =
  Buffer :: 'b

record 'b EffectTarget =
  Main :: "'b MixParams"

record 'a EchoProps =
  Delay :: real
  LRDelay :: real
  Damping :: real
  Feedback :: 'a
  Spread :: real

text \<open>\<open>EffectProps\<close> is a variant; \<open>OtherProps\<close> stands for its alternatives other than the echo's.\<close>
datatype 'a EffectProps = EchoP "'a EchoProps" | OtherProps

definition LowpassFreqRef :: real where
  "LowpassFreqRef = 5000"

text \<open>
  A freshly constructed state, \<open>new EchoState{}\<close> of the factory, with the default member
  initialisers. \<open>BufferLineSize\<close> is the length of a \<open>FloatBufferLine\<close>; the coefficients of
  a default filter and the empty output target are arguments.
\<close>
definition EchoState_new :: "nat \<Rightarrow> nat \<Rightarrow> 'c \<Rightarrow> 'b \<Rightarrow> ('a::zero, 'c, 'b) EchoState" where
  "EchoState_new MaxAmbiChannels BufferLineSize coeffs0 target0 =
    \<lparr>mSampleBuffer = [], mDelayTap = (0, 0), mOffset = 0,
     mGains = (\<lparr>Current = replicate MaxAmbiChannels 0, Target = replicate MaxAmbiChannels 0\<rparr>,
               \<lparr>Current = replicate MaxAmbiChannels 0, Target = replicate MaxAmbiChannels 0\<rparr>),
     mFilter = \<lparr>coeffs = coeffs0, mZ1 = 0, mZ2 = 0\<rparr>,
     mFeedGain = 0,
     mTempBuffer = (replicate BufferLineSize 0, replicate BufferLineSize 0),
     mOutTarget = target0\<rparr>"

subsection \<open>deviceUpdate\<close>

text \<open>
  The constants \<open>EchoMaxDelay\<close>, \<open>EchoMaxLRDelay\<close> and \<open>MaxAmbiChannels\<close> are declared in
  headers that are not among the sources; they are arguments.
\<close>
definition echo_maxlen :: "real \<Rightarrow> real \<Rightarrow> DeviceBase \<Rightarrow> c_uint" where
  \<comment> \<open>the local constant \<open>maxlen\<close> of \<open>deviceUpdate\<close>\<close>
  "echo_maxlen EchoMaxDelay EchoMaxLRDelay Device =
    (let frequency = uint2float (mSampleRate Device)
     in NextPowerOf2 (float2uint (fadd (fmul EchoMaxDelay frequency) 0.5) +
                      float2uint (fadd (fmul EchoMaxLRDelay frequency) 0.5)))"

definition deviceUpdate ::
  "real \<Rightarrow> real \<Rightarrow> nat \<Rightarrow> DeviceBase \<Rightarrow> ('a::zero, 'c, 'b) EchoState \<Rightarrow> ('a, 'c, 'b) EchoState" where
  "deviceUpdate EchoMaxDelay EchoMaxLRDelay MaxAmbiChannels Device s =
    (let maxlen = echo_maxlen EchoMaxDelay EchoMaxLRDelay Device;
         buf = (if unat maxlen \<noteq> length (mSampleBuffer s)
                then replicate (unat maxlen) 0 else mSampleBuffer s);
         zero_gains = \<lparr>Current = replicate MaxAmbiChannels 0,
                       Target = replicate MaxAmbiChannels 0\<rparr>
     in s\<lparr>mSampleBuffer := replicate (length buf) 0,
          mGains := (zero_gains, zero_gains)\<rparr>)"

subsection \<open>update\<close>

text \<open>
  \<open>CalcAmbiCoeffs\<close> and \<open>ComputePanGains\<close> are declared outside echo.cpp and are arguments;
  \<open>ComputePanGains\<close> writes into the gain vector it is handed and so maps the old vector
  to the new one.
\<close>
definition update ::
  "(BiquadType \<Rightarrow> real \<Rightarrow> real \<Rightarrow> real \<Rightarrow> 'c) \<Rightarrow> (real \<Rightarrow> real \<Rightarrow> real \<Rightarrow> real \<Rightarrow> 'k)
    \<Rightarrow> ('b MixParams \<Rightarrow> 'k \<Rightarrow> 'a \<Rightarrow> 'a list \<Rightarrow> 'a list)
    \<Rightarrow> ContextBase \<Rightarrow> 'a EffectSlot \<Rightarrow> 'a EffectProps \<Rightarrow> 'b EffectTarget
    \<Rightarrow> ('a, 'c, 'b) EchoState \<Rightarrow> error + ('a, 'c, 'b) EchoState" where
  "update calc CalcAmbiCoeffs ComputePanGains context slot eprops target s =
    (case eprops of
       OtherProps \<Rightarrow> Inl BadVariantAccess
     | EchoP props \<Rightarrow>
        (let device = mDevice context;
             frequency = uint2float (mSampleRate device);
             tap0 = (ucast (max (float2uint (std_round (fmul (Delay props) frequency))) 1)
                      :: size_t);
             tap1 = ucast (float2uint (std_round (fmul (LRDelay props) frequency))) + tap0;
             gainhf = max (1 - Damping props) 0.0625;
             flt = setParamsFromSlope calc HighShelf (LowpassFreqRef / frequency) gainhf 1
                     (mFilter s);
             x = Spread props;
             z = sqrt (1 - x * x);
             coeffs0 = CalcAmbiCoeffs x 0 z 0;
             coeffs1 = CalcAmbiCoeffs (- x) 0 z 0;
             g0 = fst (mGains s);
             g1 = snd (mGains s)
         in Inr (s\<lparr>mDelayTap := (tap0, tap1),
                   mFilter := flt,
                   mFeedGain := Feedback props,
                   mOutTarget := Buffer (Main target),
                   mGains :=
                     (g0\<lparr>Target := ComputePanGains (Main target) coeffs0 (Gain slot) (Target g0)\<rparr>,
                      g1\<lparr>Target := ComputePanGains (Main target) coeffs1 (Gain slot) (Target g1)\<rparr>)\<rparr>)))"

subsection \<open>process\<close>

text \<open>
  The local variables of the processing loop. \<open>ls_delaybuf\<close> is the span over
  \<open>mSampleBuffer\<close>, \<open>ls_temp0\<close> and \<open>ls_temp1\<close> are the two lines of \<open>mTempBuffer\<close>.
\<close>
record 'a loop_state =
  ls_i :: size_t
  ls_offset :: size_t
  ls_tap1 :: size_t
  ls_tap2 :: size_t
  ls_delaybuf :: "'a list"
  ls_temp0 :: "'a list"
  ls_temp1 :: "'a list"
  ls_z1 :: 'a
  ls_z2 :: 'a

text \<open>
  The body of the \<open>do \<dots> while\<close> loop: one sample. \<open>processOne\<close> is declared in
  core/filters/biquad.h and is an argument: from the filter, the input sample and the two
  state terms it gives the output sample and the new state terms.
\<close>
definition echo_sample ::
  "(('a, 'c) BiquadFilter \<Rightarrow> 'a \<Rightarrow> 'a \<Rightarrow> 'a \<Rightarrow> 'a \<times> 'a \<times> 'a) \<Rightarrow> ('a, 'c) BiquadFilter \<Rightarrow> 'a
    \<Rightarrow> 'a list list \<Rightarrow> ('a::{plus,times}) loop_state \<Rightarrow> error + 'a loop_state" where
  "echo_sample processOne flt feedGain samplesIn st =
    (let i = unat (ls_i st); offset = unat (ls_offset st);
         tap1 = unat (ls_tap1 st); tap2 = unat (ls_tap2 st)
     in if \<not> (0 < length samplesIn \<and> i < length (samplesIn ! 0) \<and>
               offset < length (ls_delaybuf st))
        then Inl OutOfBounds
        else
          let buf1 = (ls_delaybuf st)[offset := samplesIn ! 0 ! i]
          in if \<not> (tap1 < length buf1 \<and> i < length (ls_temp0 st)) then Inl OutOfBounds
             else
               let temp0 = (ls_temp0 st)[i := buf1 ! tap1]
               in if \<not> (tap2 < length buf1 \<and> i < length (ls_temp1 st)) then Inl OutOfBounds
                  else
                    let temp1 = (ls_temp1 st)[i := buf1 ! tap2];
                        feedb = temp1 ! i;
                        (out, z1, z2) = processOne flt feedb (ls_z1 st) (ls_z2 st);
                        buf2 = buf1[offset := buf1 ! offset + out * feedGain]
                    in Inr \<lparr>ls_i = ls_i st + 1, ls_offset = ls_offset st + 1,
                            ls_tap1 = ls_tap1 st + 1, ls_tap2 = ls_tap2 st + 1,
                            ls_delaybuf = buf2, ls_temp0 = temp0, ls_temp1 = temp1,
                            ls_z1 = z1, ls_z2 = z2\<rparr>)"

text \<open>The inner loop \<open>do { \<dots> } while(--td)\<close>.\<close>
function chunk_loop ::
  "(('a, 'c) BiquadFilter \<Rightarrow> 'a \<Rightarrow> 'a \<Rightarrow> 'a \<Rightarrow> 'a \<times> 'a \<times> 'a) \<Rightarrow> ('a, 'c) BiquadFilter \<Rightarrow> 'a
    \<Rightarrow> 'a list list \<Rightarrow> size_t \<Rightarrow> ('a::{plus,times}) loop_state \<Rightarrow> error + 'a loop_state" where
  "chunk_loop processOne flt feedGain samplesIn td st =
    (case echo_sample processOne flt feedGain samplesIn st of
       Inl e \<Rightarrow> Inl e
     | Inr st' \<Rightarrow>
         if td - 1 \<noteq> 0 then chunk_loop processOne flt feedGain samplesIn (td - 1) st'
         else Inr st')"
  by pat_completeness auto
termination
proof (relation "measure (\<lambda>(processOne, flt, feedGain, samplesIn, td, st). unat (td - 1))",
    goal_cases)
  case 1
  show ?case by simp
next
  case (2 processOne flt feedGain samplesIn td st st')
  have dec: "unat (w - 1) < unat w" if "w \<noteq> 0" for w :: size_t
    using that by (simp add: unat_minus_one unat_gt_0)
  from dec [of "td - 1"] 2 show ?case by simp
qed

declare chunk_loop.simps [simp del]

text \<open>
  The outer loop \<open>for(auto i=0_uz;i < samplesToDo;)\<close>. The result \<open>None\<close> stands for a
  loop that does not end.
\<close>
partial_function (option) block_loop ::
  "(('a, 'c) BiquadFilter \<Rightarrow> 'a \<Rightarrow> 'a \<Rightarrow> 'a \<Rightarrow> 'a \<times> 'a \<times> 'a) \<Rightarrow> ('a, 'c) BiquadFilter \<Rightarrow> 'a
    \<Rightarrow> 'a list list \<Rightarrow> size_t \<Rightarrow> size_t \<Rightarrow> ('a::{plus,times}) loop_state
    \<Rightarrow> (error + 'a loop_state) option" where
  "block_loop processOne flt feedGain samplesIn samplesToDo bufmask st =
    (if ls_i st < samplesToDo then
       (let offset = ls_offset st AND bufmask;
            tap1 = ls_tap1 st AND bufmask;
            tap2 = ls_tap2 st AND bufmask;
            max_offset = max offset (max tap1 tap2);
            td = min (bufmask + 1 - max_offset) (samplesToDo - ls_i st)
        in case chunk_loop processOne flt feedGain samplesIn td
                  (st\<lparr>ls_offset := offset, ls_tap1 := tap1, ls_tap2 := tap2\<rparr>) of
             Inl e \<Rightarrow> Some (Inl e)
           | Inr st' \<Rightarrow> block_loop processOne flt feedGain samplesIn samplesToDo bufmask st')
     else Some (Inr st))"

text \<open>
  \<open>MixSamples\<close> is declared in core/mixer.h and is an argument: from the input samples, the
  output lines, the current and the target gains, the counter and the output position it
  gives the new output lines and the new current gains. \<open>ASSUME(samplesToDo > 0)\<close> is a
  promise of the caller, not a check.
\<close>
definition process ::
  "(('a, 'c) BiquadFilter \<Rightarrow> 'a \<Rightarrow> 'a \<Rightarrow> 'a \<Rightarrow> 'a \<times> 'a \<times> 'a)
    \<Rightarrow> ('a list \<Rightarrow> 'o \<Rightarrow> 'a list \<Rightarrow> 'a list \<Rightarrow> size_t \<Rightarrow> size_t \<Rightarrow> 'o \<times> 'a list)
    \<Rightarrow> size_t \<Rightarrow> 'a list list \<Rightarrow> 'o \<Rightarrow> ('a::{plus,times}, 'c, 'b) EchoState
    \<Rightarrow> (error + ('a, 'c, 'b) EchoState \<times> 'o) option" where
  "process processOne MixSamples samplesToDo samplesIn samplesOut s =
    (let bufmask = word_of_nat (length (mSampleBuffer s)) - 1;
         offset = mOffset s;
         tap1 = offset - fst (mDelayTap s);
         tap2 = offset - snd (mDelayTap s);
         flt = mFilter s;
         (z1, z2) = getComponents (mFilter s)
     in case block_loop processOne flt (mFeedGain s) samplesIn samplesToDo bufmask
               \<lparr>ls_i = 0, ls_offset = offset, ls_tap1 = tap1, ls_tap2 = tap2,
                ls_delaybuf = mSampleBuffer s, ls_temp0 = fst (mTempBuffer s),
                ls_temp1 = snd (mTempBuffer s), ls_z1 = z1, ls_z2 = z2\<rparr> of
          None \<Rightarrow> None
        | Some (Inl e) \<Rightarrow> Some (Inl e)
        | Some (Inr st) \<Rightarrow>
            if \<not> (unat samplesToDo \<le> length (ls_temp0 st) \<and>
                   unat samplesToDo \<le> length (ls_temp1 st))
            then Some (Inl OutOfBounds)
            else
              let g0 = fst (mGains s);
                  g1 = snd (mGains s);
                  (out0, cur0) = MixSamples (take (unat samplesToDo) (ls_temp0 st)) samplesOut
                                   (Current g0) (Target g0) samplesToDo 0;
                  (out1, cur1) = MixSamples (take (unat samplesToDo) (ls_temp1 st)) out0
                                   (Current g1) (Target g1) samplesToDo 0
              in Some (Inr (s\<lparr>mSampleBuffer := ls_delaybuf st,
                              mTempBuffer := (ls_temp0 st, ls_temp1 st),
                              mFilter := setComponents (ls_z1 st) (ls_z2 st) (mFilter s),
                              mOffset := ls_offset st,
                              mGains := (g0\<lparr>Current := cur0\<rparr>, g1\<lparr>Current := cur1\<rparr>)\<rparr>,
                            out1)))"

subsection \<open>A run of blocks and the mixer\<close>




subsection \<open>A reference for the processing loop\<close>

text \<open>
  The spec describes the loop by what it must equal: a loop over the samples one by one
  that keeps the three indices within the buffer "via bitmask after every increment".
  This reference follows those words, not the source: the indices are masked on entry and
  after every sample, and there are no sub-chunks.
\<close>
definition mask_indices :: "size_t \<Rightarrow> 'a loop_state \<Rightarrow> 'a loop_state" where
  "mask_indices bufmask st =
    st\<lparr>ls_offset := ls_offset st AND bufmask,
       ls_tap1 := ls_tap1 st AND bufmask,
       ls_tap2 := ls_tap2 st AND bufmask\<rparr>"

definition reference_sample ::
  "(('a, 'c) BiquadFilter \<Rightarrow> 'a \<Rightarrow> 'a \<Rightarrow> 'a \<Rightarrow> 'a \<times> 'a \<times> 'a) \<Rightarrow> ('a, 'c) BiquadFilter \<Rightarrow> 'a
    \<Rightarrow> 'a list list \<Rightarrow> size_t \<Rightarrow> ('a::{plus,times}) loop_state \<Rightarrow> error + 'a loop_state" where
  "reference_sample processOne flt feedGain samplesIn bufmask st =
    (case echo_sample processOne flt feedGain samplesIn st of
       Inl e \<Rightarrow> Inl e
     | Inr st' \<Rightarrow> Inr (mask_indices bufmask st'))"

fun reference_iter ::
  "(('a, 'c) BiquadFilter \<Rightarrow> 'a \<Rightarrow> 'a \<Rightarrow> 'a \<Rightarrow> 'a \<times> 'a \<times> 'a) \<Rightarrow> ('a, 'c) BiquadFilter \<Rightarrow> 'a
    \<Rightarrow> 'a list list \<Rightarrow> size_t \<Rightarrow> nat \<Rightarrow> ('a::{plus,times}) loop_state
    \<Rightarrow> error + 'a loop_state" where
  "reference_iter processOne flt feedGain samplesIn bufmask 0 st = Inr st"
| "reference_iter processOne flt feedGain samplesIn bufmask (Suc n) st =
    (case reference_sample processOne flt feedGain samplesIn bufmask st of
       Inl e \<Rightarrow> Inl e
     | Inr st' \<Rightarrow> reference_iter processOne flt feedGain samplesIn bufmask n st')"

definition reference_loop ::
  "(('a, 'c) BiquadFilter \<Rightarrow> 'a \<Rightarrow> 'a \<Rightarrow> 'a \<Rightarrow> 'a \<times> 'a \<times> 'a) \<Rightarrow> ('a, 'c) BiquadFilter \<Rightarrow> 'a
    \<Rightarrow> 'a list list \<Rightarrow> size_t \<Rightarrow> size_t \<Rightarrow> ('a::{plus,times}) loop_state
    \<Rightarrow> error + 'a loop_state" where
  "reference_loop processOne flt feedGain samplesIn samplesToDo bufmask st =
    reference_iter processOne flt feedGain samplesIn bufmask
      (unat samplesToDo - unat (ls_i st)) (mask_indices bufmask st)"

text \<open>\<open>process\<close> with the reference loop in place of the sub-chunked one.\<close>
definition process_reference ::
  "(('a, 'c) BiquadFilter \<Rightarrow> 'a \<Rightarrow> 'a \<Rightarrow> 'a \<Rightarrow> 'a \<times> 'a \<times> 'a)
    \<Rightarrow> ('a list \<Rightarrow> 'o \<Rightarrow> 'a list \<Rightarrow> 'a list \<Rightarrow> size_t \<Rightarrow> size_t \<Rightarrow> 'o \<times> 'a list)
    \<Rightarrow> size_t \<Rightarrow> 'a list list \<Rightarrow> 'o \<Rightarrow> ('a::{plus,times}, 'c, 'b) EchoState
    \<Rightarrow> error + ('a, 'c, 'b) EchoState \<times> 'o" where
  "process_reference processOne MixSamples samplesToDo samplesIn samplesOut s =
    (let bufmask = word_of_nat (length (mSampleBuffer s)) - 1;
         offset = mOffset s;
         tap1 = offset - fst (mDelayTap s);
         tap2 = offset - snd (mDelayTap s);
         flt = mFilter s;
         (z1, z2) = getComponents (mFilter s)
     in case reference_loop processOne flt (mFeedGain s) samplesIn samplesToDo bufmask
               \<lparr>ls_i = 0, ls_offset = offset, ls_tap1 = tap1, ls_tap2 = tap2,
                ls_delaybuf = mSampleBuffer s, ls_temp0 = fst (mTempBuffer s),
                ls_temp1 = snd (mTempBuffer s), ls_z1 = z1, ls_z2 = z2\<rparr> of
          Inl e \<Rightarrow> Inl e
        | Inr st \<Rightarrow>
            if \<not> (unat samplesToDo \<le> length (ls_temp0 st) \<and>
                   unat samplesToDo \<le> length (ls_temp1 st))
            then Inl OutOfBounds
            else
              let g0 = fst (mGains s);
                  g1 = snd (mGains s);
                  (out0, cur0) = MixSamples (take (unat samplesToDo) (ls_temp0 st)) samplesOut
                                   (Current g0) (Target g0) samplesToDo 0;
                  (out1, cur1) = MixSamples (take (unat samplesToDo) (ls_temp1 st)) out0
                                   (Current g1) (Target g1) samplesToDo 0
              in Inr (s\<lparr>mSampleBuffer := ls_delaybuf st,
                        mTempBuffer := (ls_temp0 st, ls_temp1 st),
                        mFilter := setComponents (ls_z1 st) (ls_z2 st) (mFilter s),
                        mOffset := ls_offset st,
                        mGains := (g0\<lparr>Current := cur0\<rparr>, g1\<lparr>Current := cur1\<rparr>)\<rparr>,
                      out1))"

section \<open>Machine arithmetic\<close>

lemma unat_ucast_uint_size: "unat (ucast (a::c_uint) :: size_t) = unat a"
proof -
  have "unat a < 2 ^ 32" using unsigned_less [of a] by simp
  then have "unat a < 2 ^ 64" by simp
  then show ?thesis by (simp add: unsigned_ucast_eq take_bit_nat_eq_self)
qed

lemma unat_max_word: "unat (max a b) = max (unat a) (unat b)" for a b :: "'a::len word"
  by (simp add: max_def word_le_nat_alt)

lemma unat_min_word: "unat (min a b) = min (unat a) (unat b)" for a b :: "'a::len word"
  by (simp add: min_def word_le_nat_alt)

lemma unat_ucast_add_size:
  "unat ((ucast (a::c_uint) :: size_t) + ucast (b::c_uint)) = unat a + unat b"
proof -
  have "unat a < 2 ^ 32" "unat b < 2 ^ 32"
    using unsigned_less [of a] unsigned_less [of b] by simp_all
  then have "unat (ucast a :: size_t) + unat (ucast b :: size_t) < 2 ^ LENGTH(64)"
    by (simp add: unat_ucast_uint_size)
  then show ?thesis
    by (simp add: unat_add_lem [THEN iffD1] unat_ucast_uint_size)
qed

lemma unat_word_of_int_uint:
  assumes "0 \<le> k" "k < 2 ^ 32"
  shows "unat (word_of_int k :: c_uint) = nat k"
proof -
  have "take_bit 32 k = k" using assms by (simp add: take_bit_int_eq_self)
  then show ?thesis by (simp add: unsigned_of_int)
qed

lemma nat_le_2p31: "nat k \<le> 2 ^ 31 \<Longrightarrow> k < 2 ^ 32"
  by simp

lemma float2uint_nonneg:
  assumes "0 \<le> x" "\<lfloor>x\<rfloor> < 2 ^ 32"
  shows "unat (float2uint x) = nat \<lfloor>x\<rfloor>"
  using assms by (simp add: float2uint_def unat_word_of_int_uint)

lemma float2uint_std_round:
  assumes "0 \<le> x" "round x < 2 ^ 32"
  shows "unat (float2uint (std_round x)) = nat (round x)"
proof -
  have r: "std_round x = of_int (round x)" using assms by (simp add: std_round_def round_def)
  have "0 \<le> round x" using assms(1) by (simp add: round_def)
  then show ?thesis unfolding r using assms(2)
    by (simp add: float2uint_def unat_word_of_int_uint)
qed

subsection \<open>The next power of two\<close>

lemma next_pow2_from_pow2: "\<exists>k. next_pow2_from (2 ^ a) n = 2 ^ k"
proof (induction "2 ^ a :: nat" n arbitrary: a rule: next_pow2_from.induct)
  case (1 n)
  show ?case
  proof (cases "n \<le> 2 ^ a")
    case True
    then show ?thesis by (subst next_pow2_from.simps) auto
  next
    case False
    then have "\<exists>k. next_pow2_from (2 ^ Suc a) n = 2 ^ k"
      using "1" [of "Suc a"] by simp
    with False show ?thesis by (subst next_pow2_from.simps) simp
  qed
qed

lemma next_pow2_from_ge: "0 < p \<Longrightarrow> n \<le> next_pow2_from p n"
proof (induction p n rule: next_pow2_from.induct)
  case (1 p n)
  then show ?case by (subst next_pow2_from.simps) auto
qed

lemma next_pow2_from_least:
  "\<lbrakk>n \<le> 2 ^ j; 2 ^ a \<le> (2::nat) ^ j\<rbrakk> \<Longrightarrow> next_pow2_from (2 ^ a) n \<le> 2 ^ j"
proof (induction "2 ^ a :: nat" n arbitrary: a rule: next_pow2_from.induct)
  case (1 n)
  show ?case
  proof (cases "n \<le> 2 ^ a")
    case True
    with "1.prems" show ?thesis by (subst next_pow2_from.simps) simp
  next
    case False
    with "1.prems"(1) have "(2::nat) ^ a < 2 ^ j" by linarith
    then have "a < j" by (simp only: power_strict_increasing_iff semiring_norm)
    then have "(2::nat) ^ Suc a \<le> 2 ^ j"
      by (metis Suc_leI one_le_numeral power_increasing)
    then have "next_pow2_from (2 ^ Suc a) n \<le> 2 ^ j"
      using "1.hyps" [of "Suc a"] False "1.prems" by simp
    with False show ?thesis by (subst next_pow2_from.simps) simp
  qed
qed

lemma next_pow2_least: "n \<le> 2 ^ j \<Longrightarrow> next_pow2_from 1 n \<le> 2 ^ j"
  using next_pow2_from_least [of n j 0] by simp

lemma next_pow2_ge: "n \<le> next_pow2_from 1 n"
  by (simp add: next_pow2_from_ge)

lemma next_pow2_pow2: "\<exists>k. next_pow2_from 1 n = 2 ^ k"
  using next_pow2_from_pow2 [of 0 n] by simp

lemma unat_NextPowerOf2:
  assumes "unat v \<le> 2 ^ 31"
  shows "unat (NextPowerOf2 v) = next_pow2_from 1 (unat v)"
proof -
  have "next_pow2_from 1 (unat v) \<le> 2 ^ 31" using assms by (rule next_pow2_least)
  then have "next_pow2_from 1 (unat v) < 2 ^ LENGTH(32)" by simp
  then show ?thesis by (simp add: NextPowerOf2_def unat_of_nat)
qed

subsection \<open>Single precision values\<close>

lemma float_ulp_pos: "0 < float_ulp x"
proof (induction x rule: float_ulp.induct)
  case (1 x)
  then show ?case by (subst float_ulp.simps) simp
qed

lemma round_even_nonneg: "0 \<le> x \<Longrightarrow> 0 \<le> round_even x"
proof -
  assume "0 \<le> x"
  then have "0 \<le> \<lfloor>x\<rfloor>" by simp
  then show ?thesis by (simp add: round_even_def Let_def)
qed

lemma to_float_nonneg: "0 \<le> x \<Longrightarrow> 0 \<le> to_float x"
proof -
  assume x: "0 \<le> x"
  define u where "u = max (float_ulp \<bar>x\<bar>) (1 / 2 ^ 149)"
  have u: "0 < u" unfolding u_def using float_ulp_pos [of "\<bar>x\<bar>"] by simp
  then have "0 \<le> x / u" using x by simp
  then have "0 \<le> round_even (x / u)" by (rule round_even_nonneg)
  then have "0 \<le> real_of_int (round_even (x / u)) * u" using u by simp
  then show ?thesis by (simp add: to_float_def Let_def u_def)
qed

lemma uint2float_nonneg: "0 \<le> uint2float w"
  unfolding uint2float_def by (rule to_float_nonneg) (rule of_nat_0_le_iff)

lemma fmul_nonneg: "0 \<le> x \<Longrightarrow> 0 \<le> y \<Longrightarrow> 0 \<le> fmul x y"
  unfolding fmul_def by (rule to_float_nonneg) simp

lemma fadd_nonneg: "0 \<le> x \<Longrightarrow> 0 \<le> y \<Longrightarrow> 0 \<le> fadd x y"
  unfolding fadd_def by (rule to_float_nonneg) simp

subsection \<open>Values of the examples\<close>

text \<open>
  The floats and sample counts used by the examples below, each evaluated from the
  definitions. The left-hand sides are in the form the simplifier gives to the numerals.
\<close>

lemma to_float_consts:
  "to_float (207 / 1000) = 13891535 / 67108864"
  "to_float (101 / 250) = 13555991 / 33554432"
  "to_float (1 / 10) = 13421773 / 134217728"
  by (simp_all add: to_float_def float_ulp.simps round_even_def)

lemma uint2float_rates:
  "uint2float 44100 = 44100" "uint2float 53630 = 53630" "uint2float 13729310 = 13729310"
  by (simp_all add: uint2float_def to_float_def float_ulp.simps round_even_def)

text \<open>Above \<open>2 ^ 24\<close> the conversion of the sample rate rounds, ties to even.\<close>
lemma uint2float_rounds:
  "uint2float 16777217 = 16777216" "uint2float 16777219 = 16777220"
  by (simp_all add: uint2float_def to_float_def float_ulp.simps round_even_def)

lemma counts_13729310:
  "fadd (fmul (13891535 / 67108864) 13729310) (1 / 2) = 11367871 / 4"
  "fadd (fmul (13555991 / 33554432) 13729310) (1 / 2) = 5546642"
  by (simp_all add: fadd_def fmul_def to_float_def float_ulp.simps round_even_def)

lemma counts_53630:
  "fadd (fmul (13891535 / 67108864) 53630) (1 / 2) = 2842089 / 256"
  "fadd (fmul (13555991 / 33554432) 53630) (1 / 2) = 11093515 / 512"
  by (simp_all add: fadd_def fmul_def to_float_def float_ulp.simps round_even_def)

lemma counts_44100:
  "fadd (fmul (13891535 / 67108864) 44100) (1 / 2) = 9348301 / 1024"
  "fadd (fmul (13555991 / 33554432) 44100) (1 / 2) = 9122253 / 512"
  by (simp_all add: fadd_def fmul_def to_float_def float_ulp.simps round_even_def)

lemma products_44100:
  "fmul (6711647 / 67108864) 44100 = 8821 / 2"
  "fmul (13421773 / 134217728) 44100 = 4410"
  "fmul 0 44100 = 0"
  by (simp_all add: fmul_def to_float_def float_ulp.simps round_even_def)

lemma next_pow2_values:
  "next_pow2_from (Suc 0) 8388609 = 16777216" "next_pow2_from (Suc 0) 32768 = 32768"
  "next_pow2_from (Suc 0) 26945 = 32768"
  by (simp_all add: next_pow2_from.simps)

lemma echo_maxlen_13729310:
  "echo_maxlen (13891535 / 67108864) (13555991 / 33554432) \<lparr>mSampleRate = 13729310\<rparr> = 16777216"
  by (simp add: echo_maxlen_def to_float_consts uint2float_rates counts_13729310
      float2uint_def NextPowerOf2_def next_pow2_values)

lemma echo_maxlen_53630:
  "echo_maxlen (13891535 / 67108864) (13555991 / 33554432) \<lparr>mSampleRate = 53630\<rparr> = 32768"
  by (simp add: echo_maxlen_def to_float_consts uint2float_rates counts_53630
      float2uint_def NextPowerOf2_def next_pow2_values)

lemma echo_maxlen_44100:
  "echo_maxlen (13891535 / 67108864) (13555991 / 33554432) \<lparr>mSampleRate = 44100\<rparr> = 32768"
  by (simp add: echo_maxlen_def to_float_consts uint2float_rates counts_44100
      float2uint_def NextPowerOf2_def next_pow2_values)

section \<open>Buffer sizing: deviceUpdate\<close>

lemma unat_NextPowerOf2_sum:
  assumes a0: "0 \<le> a" and b0: "0 \<le> b" and le: "nat \<lfloor>a\<rfloor> + nat \<lfloor>b\<rfloor> \<le> 2 ^ 31"
  shows "unat (NextPowerOf2 (float2uint a + float2uint b)) =
         next_pow2_from 1 (nat \<lfloor>a\<rfloor> + nat \<lfloor>b\<rfloor>)"
proof -
  have na: "nat \<lfloor>a\<rfloor> \<le> 2 ^ 31" and nb: "nat \<lfloor>b\<rfloor> \<le> 2 ^ 31"
    using le by linarith+
  have fa: "\<lfloor>a\<rfloor> < 2 ^ 32" using na by (rule nat_le_2p31)
  have fb: "\<lfloor>b\<rfloor> < 2 ^ 32" using nb by (rule nat_le_2p31)
  have ua: "unat (float2uint a) = nat \<lfloor>a\<rfloor>" by (rule float2uint_nonneg [OF a0 fa])
  have ub: "unat (float2uint b) = nat \<lfloor>b\<rfloor>" by (rule float2uint_nonneg [OF b0 fb])
  have "nat \<lfloor>a\<rfloor> + nat \<lfloor>b\<rfloor> < 2 ^ LENGTH(32)"
    using le by simp
  then have "unat (float2uint a) + unat (float2uint b) < 2 ^ LENGTH(32)"
    unfolding ua ub .
  then have "unat (float2uint a + float2uint b) = unat (float2uint a) + unat (float2uint b)"
    by (rule unat_add_lem [THEN iffD1])
  then have sum: "unat (float2uint a + float2uint b) = nat \<lfloor>a\<rfloor> + nat \<lfloor>b\<rfloor>"
    unfolding ua ub .
  have "unat (float2uint a + float2uint b) \<le> 2 ^ 31"
    unfolding sum by (rule le)
  then have "unat (NextPowerOf2 (float2uint a + float2uint b)) =
      next_pow2_from 1 (unat (float2uint a + float2uint b))"
    by (rule unat_NextPowerOf2)
  then show ?thesis unfolding sum .
qed

lemma unat_echo_maxlen:
  assumes "0 \<le> EchoMaxDelay" and "0 \<le> EchoMaxLRDelay"
    and "nat \<lfloor>fadd (fmul EchoMaxDelay (uint2float (mSampleRate Device))) 0.5\<rfloor> +
         nat \<lfloor>fadd (fmul EchoMaxLRDelay (uint2float (mSampleRate Device))) 0.5\<rfloor> \<le> 2 ^ 31"
  shows "unat (echo_maxlen EchoMaxDelay EchoMaxLRDelay Device) =
         next_pow2_from 1
          (nat \<lfloor>fadd (fmul EchoMaxDelay (uint2float (mSampleRate Device))) 0.5\<rfloor> +
           nat \<lfloor>fadd (fmul EchoMaxLRDelay (uint2float (mSampleRate Device))) 0.5\<rfloor>)"
proof -
  have a: "0 \<le> fadd (fmul EchoMaxDelay (uint2float (mSampleRate Device))) 0.5"
    by (intro fadd_nonneg fmul_nonneg assms(1) uint2float_nonneg) simp
  have b: "0 \<le> fadd (fmul EchoMaxLRDelay (uint2float (mSampleRate Device))) 0.5"
    by (intro fadd_nonneg fmul_nonneg assms(2) uint2float_nonneg) simp
  show ?thesis
    unfolding echo_maxlen_def Let_def by (rule unat_NextPowerOf2_sum [OF a b assms(3)])
qed

lemma deviceUpdate_length_maxlen:
  "length (mSampleBuffer (deviceUpdate EchoMaxDelay EchoMaxLRDelay MaxAmbiChannels Device s)) =
   unat (echo_maxlen EchoMaxDelay EchoMaxLRDelay Device)"
  by (simp add: deviceUpdate_def Let_def)

text \<open>
  Claim C1, as the code has it. Each of the two sample counts is the single precision
  product of the maximum delay and the rate, plus one half, truncated: the product rounded
  to the nearest integer in single precision, not rounded up. For non-negative maximum
  delays whose sample counts sum to at most \<open>2 ^ 31\<close>, the length of the buffer after
  \<open>deviceUpdate\<close> is a power of two, is at least the sum of the two sample counts, and is
  at most every power of two that is at least that sum.
\<close>
theorem deviceUpdate_length:
  assumes "0 \<le> EchoMaxDelay" and "0 \<le> EchoMaxLRDelay"
    and "nat \<lfloor>fadd (fmul EchoMaxDelay (uint2float (mSampleRate Device))) 0.5\<rfloor> +
         nat \<lfloor>fadd (fmul EchoMaxLRDelay (uint2float (mSampleRate Device))) 0.5\<rfloor> \<le> 2 ^ 31"
  shows "(\<exists>k. length (mSampleBuffer
                (deviceUpdate EchoMaxDelay EchoMaxLRDelay MaxAmbiChannels Device s)) = 2 ^ k) \<and>
    nat \<lfloor>fadd (fmul EchoMaxDelay (uint2float (mSampleRate Device))) 0.5\<rfloor> +
      nat \<lfloor>fadd (fmul EchoMaxLRDelay (uint2float (mSampleRate Device))) 0.5\<rfloor>
      \<le> length (mSampleBuffer
            (deviceUpdate EchoMaxDelay EchoMaxLRDelay MaxAmbiChannels Device s)) \<and>
    (\<forall>j. nat \<lfloor>fadd (fmul EchoMaxDelay (uint2float (mSampleRate Device))) 0.5\<rfloor> +
          nat \<lfloor>fadd (fmul EchoMaxLRDelay (uint2float (mSampleRate Device))) 0.5\<rfloor> \<le> 2 ^ j \<longrightarrow>
       length (mSampleBuffer
         (deviceUpdate EchoMaxDelay EchoMaxLRDelay MaxAmbiChannels Device s)) \<le> 2 ^ j)"
  unfolding deviceUpdate_length_maxlen unat_echo_maxlen [OF assms]
  using next_pow2_pow2 next_pow2_ge next_pow2_least by blast

text \<open>
  Witness of C1: the floats nearest to 0.207 and 0.404 as maximum delays, at 13729310 Hz.
  In single precision the two counts are 2841967 and 5546642; their sum is \<open>2 ^ 23 + 1\<close> and
  the buffer has \<open>2 ^ 24\<close> samples. (Over the reals the counts would sum to \<open>2 ^ 23\<close>.)
\<close>
theorem deviceUpdate_length_witness:
  "(0::real) \<le> to_float 0.207 \<and> (0::real) \<le> to_float 0.404 \<and>
   nat \<lfloor>fadd (fmul (to_float 0.207) (uint2float 13729310)) 0.5\<rfloor> = 2841967 \<and>
   nat \<lfloor>fadd (fmul (to_float 0.404) (uint2float 13729310)) 0.5\<rfloor> = 5546642 \<and>
   length (mSampleBuffer (deviceUpdate (to_float 0.207) (to_float 0.404) 16
      \<lparr>mSampleRate = 13729310\<rparr>
      (EchoState_new 16 1024 () () :: (real, unit, unit) EchoState))) = 16777216"
proof -
  have h1: "(0::real) \<le> to_float 0.207" and h2: "(0::real) \<le> to_float 0.404"
    by (simp_all add: to_float_consts)
  have c1: "nat \<lfloor>fadd (fmul (to_float 0.207) (uint2float 13729310)) 0.5\<rfloor> = 2841967"
    and c2: "nat \<lfloor>fadd (fmul (to_float 0.404) (uint2float 13729310)) 0.5\<rfloor> = 5546642"
    by (simp_all add: to_float_consts uint2float_rates counts_13729310)
  have h3: "nat \<lfloor>fadd (fmul (to_float 0.207)
                 (uint2float (mSampleRate \<lparr>mSampleRate = 13729310\<rparr>))) 0.5\<rfloor> +
            nat \<lfloor>fadd (fmul (to_float 0.404)
                 (uint2float (mSampleRate \<lparr>mSampleRate = 13729310\<rparr>))) 0.5\<rfloor> \<le> 2 ^ 31"
    by (simp add: to_float_consts uint2float_rates counts_13729310)
  have len: "length (mSampleBuffer (deviceUpdate (to_float 0.207) (to_float 0.404) 16
      \<lparr>mSampleRate = 13729310\<rparr>
      (EchoState_new 16 1024 () () :: (real, unit, unit) EchoState))) = 16777216"
    by (simp add: deviceUpdate_length_maxlen to_float_consts echo_maxlen_13729310)
  show ?thesis
    using deviceUpdate_length [OF h1 h2 h3]
    by - (intro conjI h1 h2 c1 c2 len)
qed

text \<open>
  Counterexample to C1 as stated (with the ceiling): at 53630 Hz the two products are
  11101.41 and 21666.52. Their ceilings sum to 32769, but the code rounds them to 11101 and
  21667, whose sum 32768 is a power of two already: the buffer has 32768 samples, fewer
  than the 32769 of the claim, so it is not the smallest power of two that is at least
  that number.
\<close>
theorem deviceUpdate_length_ceil_counterexample:
  "length (mSampleBuffer (deviceUpdate (to_float 0.207) (to_float 0.404) 16
      \<lparr>mSampleRate = 53630\<rparr>
      (EchoState_new 16 1024 () () :: (real, unit, unit) EchoState))) = 32768 \<and>
   nat \<lceil>to_float 0.207 * real (unat (53630 :: c_uint))\<rceil> +
     nat \<lceil>to_float 0.404 * real (unat (53630 :: c_uint))\<rceil> = 32769 \<and>
   \<not> (nat \<lceil>to_float 0.207 * real (unat (53630 :: c_uint))\<rceil> +
        nat \<lceil>to_float 0.404 * real (unat (53630 :: c_uint))\<rceil>
       \<le> length (mSampleBuffer (deviceUpdate (to_float 0.207) (to_float 0.404) 16
            \<lparr>mSampleRate = 53630\<rparr>
            (EchoState_new 16 1024 () () :: (real, unit, unit) EchoState))))"
  by (simp add: deviceUpdate_length_maxlen to_float_consts echo_maxlen_53630)

text \<open>
  Claim C3, as the code has it. When the required length equals the current length the
  vector is kept (its length does not change), but the fill that follows is not guarded by
  the comparison: every sample of the buffer is overwritten with zero.
\<close>
theorem deviceUpdate_same_length:
  assumes "unat (echo_maxlen EchoMaxDelay EchoMaxLRDelay Device) = length (mSampleBuffer s)"
  shows "mSampleBuffer (deviceUpdate EchoMaxDelay EchoMaxLRDelay MaxAmbiChannels Device s) =
     replicate (length (mSampleBuffer s)) 0"
  using assms by (simp add: deviceUpdate_def Let_def)

text \<open>Witness of C3: a buffer of 32768 ones at 44100 Hz becomes 32768 zeros.\<close>
theorem deviceUpdate_same_length_witness:
  "unat (echo_maxlen (to_float 0.207) (to_float 0.404) \<lparr>mSampleRate = 44100\<rparr>) =
     length (mSampleBuffer ((EchoState_new 16 1024 () () :: (real, unit, unit) EchoState)
        \<lparr>mSampleBuffer := replicate 32768 1\<rparr>)) \<and>
   mSampleBuffer (deviceUpdate (to_float 0.207) (to_float 0.404) 16 \<lparr>mSampleRate = 44100\<rparr>
      ((EchoState_new 16 1024 () () :: (real, unit, unit) EchoState)
        \<lparr>mSampleBuffer := replicate 32768 1\<rparr>)) = replicate 32768 0"
proof -
  have h: "unat (echo_maxlen (to_float 0.207) (to_float 0.404) \<lparr>mSampleRate = 44100\<rparr>) =
     length (mSampleBuffer ((EchoState_new 16 1024 () () :: (real, unit, unit) EchoState)
        \<lparr>mSampleBuffer := replicate 32768 1\<rparr>))"
    by (simp add: to_float_consts echo_maxlen_44100 EchoState_new_def)
  have r: "mSampleBuffer (deviceUpdate (to_float 0.207) (to_float 0.404) 16
      \<lparr>mSampleRate = 44100\<rparr>
      ((EchoState_new 16 1024 () () :: (real, unit, unit) EchoState)
        \<lparr>mSampleBuffer := replicate 32768 1\<rparr>)) = replicate 32768 0"
    using deviceUpdate_same_length [OF h, of 16] by (simp add: EchoState_new_def)
  show ?thesis by (intro conjI h r)
qed

text \<open>
  Counterexample to C3 as stated: the buffer holds 32768 samples of value 1, which is the
  required length at 44100 Hz, and \<open>deviceUpdate\<close> changes its contents.
\<close>
theorem deviceUpdate_same_length_counterexample:
  "unat (echo_maxlen (to_float 0.207) (to_float 0.404) \<lparr>mSampleRate = 44100\<rparr>) =
     length (mSampleBuffer ((EchoState_new 16 1024 () () :: (real, unit, unit) EchoState)
        \<lparr>mSampleBuffer := replicate 32768 1\<rparr>)) \<and>
   mSampleBuffer (deviceUpdate (to_float 0.207) (to_float 0.404) 16 \<lparr>mSampleRate = 44100\<rparr>
      ((EchoState_new 16 1024 () () :: (real, unit, unit) EchoState)
        \<lparr>mSampleBuffer := replicate 32768 1\<rparr>))
   \<noteq> mSampleBuffer ((EchoState_new 16 1024 () () :: (real, unit, unit) EchoState)
        \<lparr>mSampleBuffer := replicate 32768 1\<rparr>)"
  by (simp add: deviceUpdate_def Let_def EchoState_new_def to_float_consts echo_maxlen_44100)

text \<open>
  Claim C9. After every \<open>deviceUpdate\<close>, whether or not it reallocates, the delay buffer
  holds only zeros and the \<open>Current\<close> gains of both taps are all zero.
\<close>
theorem deviceUpdate_zeroes:
  "mSampleBuffer (deviceUpdate EchoMaxDelay EchoMaxLRDelay MaxAmbiChannels Device s) =
     replicate (length (mSampleBuffer
        (deviceUpdate EchoMaxDelay EchoMaxLRDelay MaxAmbiChannels Device s))) 0 \<and>
   Current (fst (mGains (deviceUpdate EchoMaxDelay EchoMaxLRDelay MaxAmbiChannels Device s))) =
     replicate MaxAmbiChannels 0 \<and>
   Current (snd (mGains (deviceUpdate EchoMaxDelay EchoMaxLRDelay MaxAmbiChannels Device s))) =
     replicate MaxAmbiChannels 0"
  by (simp add: deviceUpdate_def Let_def)

section \<open>Parameter update\<close>

text \<open>
  Claim C2, as the code has it. After \<open>update\<close> the offset of tap 0 is at least one and the
  offset of tap 1 is at least that of tap 0. It is not always greater: the spread delay may
  round to zero samples.
\<close>
theorem update_taps_ordered:
  "\<exists>s'. update calc CalcAmbiCoeffs ComputePanGains context slot (EchoP props) target s = Inr s' \<and>
     1 \<le> unat (fst (mDelayTap s')) \<and> unat (fst (mDelayTap s')) \<le> unat (snd (mDelayTap s'))"
  by (simp add: update_def Let_def unat_ucast_uint_size unat_max_word
      add.commute [of _ "ucast (max _ _)"] unat_ucast_add_size)

text \<open>
  Counterexample to C2 as stated: a delay of 0.1 s and a spread delay of 0 s at 44100 Hz
  give both taps the offset 4410.
\<close>
theorem update_taps_equal_counterexample:
  "map_sum id mDelayTap
     (update (\<lambda>t f g sl. ()) (\<lambda>x y z w. ()) (\<lambda>m c g v. v)
        \<lparr>mDevice = \<lparr>mSampleRate = 44100\<rparr>\<rparr> \<lparr>Gain = 1\<rparr>
        (EchoP \<lparr>Delay = to_float 0.1, LRDelay = 0, Damping = 0.5, Feedback = 0.5, Spread = 0\<rparr>)
        \<lparr>Main = \<lparr>Buffer = ()\<rparr>\<rparr>
        (EchoState_new 16 1024 () () :: (real, unit, unit) EchoState))
   = Inr (4410, 4410)"
  by (simp add: update_def std_round_def float2uint_def to_float_consts uint2float_rates
      products_44100)

text \<open>
  Claim C6. For non-negative delay times whose sample counts fit an \<open>unsigned int\<close>, the
  offset of tap 0 is the rounded product of the delay and the sample rate, but at least one,
  and the offset of tap 1 is the rounded product of the spread delay and the sample rate
  plus the offset of tap 0. The products are those of the code, in single precision.
\<close>
theorem update_tap_offsets:
  assumes "0 \<le> Delay props" and "0 \<le> LRDelay props"
    and "round (fmul (Delay props) (uint2float (mSampleRate (mDevice context)))) < 2 ^ 32"
    and "round (fmul (LRDelay props) (uint2float (mSampleRate (mDevice context)))) < 2 ^ 32"
  shows "\<exists>s'. update calc CalcAmbiCoeffs ComputePanGains context slot (EchoP props) target s
            = Inr s' \<and>
     unat (fst (mDelayTap s')) =
       max (nat (round (fmul (Delay props) (uint2float (mSampleRate (mDevice context)))))) 1 \<and>
     unat (snd (mDelayTap s')) =
       nat (round (fmul (LRDelay props) (uint2float (mSampleRate (mDevice context))))) +
       unat (fst (mDelayTap s'))"
proof -
  let ?f = "uint2float (mSampleRate (mDevice context))"
  have f: "0 \<le> ?f" by (rule uint2float_nonneg)
  have a: "unat (float2uint (std_round (fmul (Delay props) ?f))) =
      nat (round (fmul (Delay props) ?f))"
    using assms(3) fmul_nonneg [OF assms(1) f] by (rule float2uint_std_round [rotated])
  have b: "unat (float2uint (std_round (fmul (LRDelay props) ?f))) =
      nat (round (fmul (LRDelay props) ?f))"
    using assms(4) fmul_nonneg [OF assms(2) f] by (rule float2uint_std_round [rotated])
  from a b show ?thesis
    by (simp add: update_def Let_def unat_ucast_uint_size unat_max_word unat_ucast_add_size)
qed

text \<open>
  Witness of C6: the delay 6711647 / 2 ^ 26 s (the float 0x3dccd2be, about 0.1000113) and the
  spread delay nearest to 0.1 s, at 44100 Hz. The product of the delay and the rate is
  4410.4998 over the reals and 4410.5 in single precision, which rounds to 4411; the
  offsets are 4411 and 8821.
\<close>
theorem update_tap_offsets_witness:
  "(0::real) \<le> 6711647 / 2 ^ 26 \<and> (0::real) \<le> to_float 0.1 \<and>
   fmul (6711647 / 2 ^ 26) (uint2float 44100) = 4410.5 \<and>
   round (fmul (6711647 / 2 ^ 26) (uint2float 44100)) = 4411 \<and>
   round (fmul (to_float 0.1) (uint2float 44100)) = 4410 \<and>
   map_sum id mDelayTap
     (update (\<lambda>t f g sl. ()) (\<lambda>x y z w. ()) (\<lambda>m c g v. v)
        \<lparr>mDevice = \<lparr>mSampleRate = 44100\<rparr>\<rparr> \<lparr>Gain = 1\<rparr>
        (EchoP \<lparr>Delay = 6711647 / 2 ^ 26, LRDelay = to_float 0.1, Damping = 0.5,
                Feedback = 0.5, Spread = 0\<rparr>)
        \<lparr>Main = \<lparr>Buffer = ()\<rparr>\<rparr>
        (EchoState_new 16 1024 () () :: (real, unit, unit) EchoState))
   = Inr (4411, 8821)"
  using update_tap_offsets [of
      "\<lparr>Delay = 6711647 / 2 ^ 26, LRDelay = to_float 0.1, Damping = 0.5, Feedback = 0.5,
        Spread = 0\<rparr>"
      "\<lparr>mDevice = \<lparr>mSampleRate = 44100\<rparr>\<rparr>" "\<lambda>t f g sl. ()" "\<lambda>x y z w. ()" "\<lambda>m c g v. v"
      "\<lparr>Gain = 1\<rparr>" "\<lparr>Main = \<lparr>Buffer = ()\<rparr>\<rparr>"
      "EchoState_new 16 1024 () () :: (real, unit, unit) EchoState"]
  by (simp add: update_def std_round_def float2uint_def round_def to_float_consts
      uint2float_rates products_44100)


text \<open>
  Claim C8. \<open>update\<close> leaves the delay buffer, the write cursor, the temporary lines, the
  \<open>Current\<close> gains of both taps and the two state terms of the filter as they were.
\<close>
theorem update_frame:
  "\<exists>s'. update calc CalcAmbiCoeffs ComputePanGains context slot (EchoP props) target s = Inr s' \<and>
     mSampleBuffer s' = mSampleBuffer s \<and>
     mOffset s' = mOffset s \<and>
     mTempBuffer s' = mTempBuffer s \<and>
     Current (fst (mGains s')) = Current (fst (mGains s)) \<and>
     Current (snd (mGains s')) = Current (snd (mGains s)) \<and>
     getComponents (mFilter s') = getComponents (mFilter s)"
  by (simp add: update_def Let_def setParamsFromSlope_def getComponents_def)

section \<open>Block processing\<close>

subsection \<open>One sample and the masks\<close>

lemma echo_sample_Inr:
  assumes "samplesIn \<noteq> []" "unat (ls_i st) < length (samplesIn ! 0)"
    "unat (ls_i st) < length (ls_temp0 st)" "unat (ls_i st) < length (ls_temp1 st)"
    "unat (ls_offset st) < length (ls_delaybuf st)"
    "unat (ls_tap1 st) < length (ls_delaybuf st)"
    "unat (ls_tap2 st) < length (ls_delaybuf st)"
  shows "\<exists>st'. echo_sample processOne flt feedGain samplesIn st = Inr st' \<and>
    ls_i st' = ls_i st + 1 \<and> ls_offset st' = ls_offset st + 1 \<and>
    ls_tap1 st' = ls_tap1 st + 1 \<and> ls_tap2 st' = ls_tap2 st + 1 \<and>
    length (ls_delaybuf st') = length (ls_delaybuf st) \<and>
    length (ls_temp0 st') = length (ls_temp0 st) \<and>
    length (ls_temp1 st') = length (ls_temp1 st)"
  using assms by (simp add: echo_sample_def Let_def split: prod.split)

lemma bufmask_eq: "k < 64 \<Longrightarrow> (word_of_nat (2 ^ k) :: size_t) - 1 = mask k"
  by (simp add: mask_eq_decr_exp)

lemma unat_and_mask_less: "k < 64 \<Longrightarrow> unat ((w::size_t) AND mask k) < 2 ^ k"
  by (simp add: unsigned_and_eq unsigned_take_bit_eq flip: take_bit_eq_mask)

lemma and_mask_id: "unat (w::size_t) < 2 ^ k \<Longrightarrow> w AND mask k = w"
proof -
  assume a: "unat w < 2 ^ k"
  have "uint w = int (unat w)" by simp
  also have "\<dots> < int (2 ^ k)" using a by (simp only: of_nat_less_iff)
  finally have "uint w < 2 ^ k" by simp
  then show ?thesis by (simp add: mask_eq_iff)
qed

lemma unat_plus_one: "unat (w::size_t) + 1 < 2 ^ 64 \<Longrightarrow> unat (w + 1) = unat w + 1"
  using unat_add_lem [of w 1] by simp

lemma pow2_lt_64: "k < 64 \<Longrightarrow> (2::nat) ^ k < 2 ^ 64"
  by (rule power_strict_increasing) simp_all

lemma mask_indices_id:
  assumes "unat (ls_offset st) < 2 ^ k" "unat (ls_tap1 st) < 2 ^ k" "unat (ls_tap2 st) < 2 ^ k"
  shows "mask_indices (mask k) st = st"
  using assms by (simp add: mask_indices_def and_mask_id)

lemma reference_sample_in_range:
  assumes "unat (ls_offset st) < 2 ^ k" "unat (ls_tap1 st) < 2 ^ k" "unat (ls_tap2 st) < 2 ^ k"
    and "echo_sample processOne flt feedGain samplesIn st = Inr st1"
  shows "reference_sample processOne flt feedGain samplesIn (mask k) (mask_indices (mask k) st)
    = Inr (mask_indices (mask k) st1)"
  using assms by (simp add: mask_indices_id reference_sample_def)

lemma chunk_loop_ok:
  fixes st :: "('a::{plus,times}) loop_state"
  assumes "unat td = Suc m" and "k < 64" and "samplesIn \<noteq> []"
    and "unat (ls_i st) + Suc m \<le> unat (samplesToDo :: size_t)"
    and "unat samplesToDo \<le> length (samplesIn ! 0)"
    and "unat samplesToDo \<le> length (ls_temp0 st)"
    and "unat samplesToDo \<le> length (ls_temp1 st)"
    and "length (ls_delaybuf st) = 2 ^ k"
    and "unat (ls_offset st) + Suc m \<le> 2 ^ k"
    and "unat (ls_tap1 st) + Suc m \<le> 2 ^ k"
    and "unat (ls_tap2 st) + Suc m \<le> 2 ^ k"
  shows "\<exists>st'. chunk_loop processOne flt feedGain samplesIn td st = Inr st' \<and>
     reference_iter processOne flt feedGain samplesIn (mask k) (Suc m) (mask_indices (mask k) st)
       = Inr (mask_indices (mask k) st') \<and>
     unat (ls_i st') = unat (ls_i st) + Suc m \<and>
     unat (ls_offset st') = unat (ls_offset st) + Suc m \<and>
     unat (ls_tap1 st') = unat (ls_tap1 st) + Suc m \<and>
     unat (ls_tap2 st') = unat (ls_tap2 st) + Suc m \<and>
     length (ls_delaybuf st') = length (ls_delaybuf st) \<and>
     length (ls_temp0 st') = length (ls_temp0 st) \<and>
     length (ls_temp1 st') = length (ls_temp1 st)"
  using assms
proof (induction m arbitrary: td st)
  case 0
  have n64: "unat samplesToDo < 2 ^ 64" using unsigned_less [of samplesToDo] by simp
  have k64: "(2::nat) ^ k < 2 ^ 64" using "0.prems"(2) by (rule pow2_lt_64)
  from "0.prems" obtain st1 where
    e: "echo_sample processOne flt feedGain samplesIn st = Inr st1" and
    f: "ls_i st1 = ls_i st + 1" "ls_offset st1 = ls_offset st + 1"
       "ls_tap1 st1 = ls_tap1 st + 1" "ls_tap2 st1 = ls_tap2 st + 1"
       "length (ls_delaybuf st1) = length (ls_delaybuf st)"
       "length (ls_temp0 st1) = length (ls_temp0 st)"
       "length (ls_temp1 st1) = length (ls_temp1 st)"
    using echo_sample_Inr [of samplesIn st processOne flt feedGain] by auto
  have td: "td = 1" using "0.prems"(1) by (metis One_nat_def unat_1 word_unat_eq_iff)
  have c: "chunk_loop processOne flt feedGain samplesIn td st = Inr st1"
    by (subst chunk_loop.simps) (simp add: e td)
  have r: "reference_iter processOne flt feedGain samplesIn (mask k) (Suc 0) (mask_indices (mask k) st)
       = Inr (mask_indices (mask k) st1)"
    using reference_sample_in_range [OF _ _ _ e, of k] "0.prems" by simp
  have u: "unat (ls_i st1) = unat (ls_i st) + 1" "unat (ls_offset st1) = unat (ls_offset st) + 1"
    "unat (ls_tap1 st1) = unat (ls_tap1 st) + 1" "unat (ls_tap2 st1) = unat (ls_tap2 st) + 1"
    unfolding f using "0.prems" n64 k64 by (simp_all add: unat_plus_one)
  show ?case using c r u f by simp
next
  case (Suc m)
  have n64: "unat samplesToDo < 2 ^ 64" using unsigned_less [of samplesToDo] by simp
  have k64: "(2::nat) ^ k < 2 ^ 64" using Suc.prems(2) by (rule pow2_lt_64)
  from Suc.prems obtain st1 where
    e: "echo_sample processOne flt feedGain samplesIn st = Inr st1" and
    f: "ls_i st1 = ls_i st + 1" "ls_offset st1 = ls_offset st + 1"
       "ls_tap1 st1 = ls_tap1 st + 1" "ls_tap2 st1 = ls_tap2 st + 1"
       "length (ls_delaybuf st1) = length (ls_delaybuf st)"
       "length (ls_temp0 st1) = length (ls_temp0 st)"
       "length (ls_temp1 st1) = length (ls_temp1 st)"
    using echo_sample_Inr [of samplesIn st processOne flt feedGain] by auto
  have u: "unat (ls_i st1) = unat (ls_i st) + 1" "unat (ls_offset st1) = unat (ls_offset st) + 1"
    "unat (ls_tap1 st1) = unat (ls_tap1 st) + 1" "unat (ls_tap2 st1) = unat (ls_tap2 st) + 1"
    unfolding f using Suc.prems n64 k64 by (simp_all add: unat_plus_one)
  have td0: "td \<noteq> 0" using Suc.prems(1) by auto
  have td1: "unat (td - 1) = Suc m" using Suc.prems(1) td0 by (simp add: unat_minus_one)
  then have td2: "td - 1 \<noteq> 0" by auto
  have c: "chunk_loop processOne flt feedGain samplesIn td st =
      chunk_loop processOne flt feedGain samplesIn (td - 1) st1"
    using td2 by (subst chunk_loop.simps) (simp add: e)
  have r: "reference_iter processOne flt feedGain samplesIn (mask k) (Suc (Suc m)) (mask_indices (mask k) st)
       = reference_iter processOne flt feedGain samplesIn (mask k) (Suc m) (mask_indices (mask k) st1)"
    using reference_sample_in_range [OF _ _ _ e, of k] Suc.prems by simp
  have "\<exists>st'. chunk_loop processOne flt feedGain samplesIn (td - 1) st1 = Inr st' \<and>
     reference_iter processOne flt feedGain samplesIn (mask k) (Suc m) (mask_indices (mask k) st1)
       = Inr (mask_indices (mask k) st') \<and>
     unat (ls_i st') = unat (ls_i st1) + Suc m \<and>
     unat (ls_offset st') = unat (ls_offset st1) + Suc m \<and>
     unat (ls_tap1 st') = unat (ls_tap1 st1) + Suc m \<and>
     unat (ls_tap2 st') = unat (ls_tap2 st1) + Suc m \<and>
     length (ls_delaybuf st') = length (ls_delaybuf st1) \<and>
     length (ls_temp0 st') = length (ls_temp0 st1) \<and>
     length (ls_temp1 st') = length (ls_temp1 st1)"
    using Suc.prems u f(5-7) by (intro Suc.IH [OF td1]) simp_all
  then obtain st' where
    "chunk_loop processOne flt feedGain samplesIn (td - 1) st1 = Inr st'"
    "reference_iter processOne flt feedGain samplesIn (mask k) (Suc m) (mask_indices (mask k) st1)
       = Inr (mask_indices (mask k) st')"
    "unat (ls_i st') = unat (ls_i st1) + Suc m"
    "unat (ls_offset st') = unat (ls_offset st1) + Suc m"
    "unat (ls_tap1 st') = unat (ls_tap1 st1) + Suc m"
    "unat (ls_tap2 st') = unat (ls_tap2 st1) + Suc m"
    "length (ls_delaybuf st') = length (ls_delaybuf st1)"
    "length (ls_temp0 st') = length (ls_temp0 st1)"
    "length (ls_temp1 st') = length (ls_temp1 st1)"
    by blast
  then show ?case
    unfolding c r u f(5-7) by (intro exI [of _ st']) simp
qed

subsection \<open>The outer loop\<close>

lemma reference_iter_add:
  "reference_iter processOne flt feedGain samplesIn bufmask (a + b) st =
    (case reference_iter processOne flt feedGain samplesIn bufmask a st of
       Inl e \<Rightarrow> Inl e
     | Inr st' \<Rightarrow> reference_iter processOne flt feedGain samplesIn bufmask b st')"
  by (induction a arbitrary: st) (simp_all split: sum.split)

lemma mask_indices_idem: "mask_indices bufmask (mask_indices bufmask st) = mask_indices bufmask st"
  by (simp add: mask_indices_def)

lemma unat_pow2_size: "k < 64 \<Longrightarrow> unat (2 ^ k :: size_t) = 2 ^ k"
proof -
  assume "k < 64"
  then have "(2::nat) ^ k < 2 ^ 64" by (rule pow2_lt_64)
  then have lt: "(2::nat) ^ k < 2 ^ LENGTH(64)" by (simp only: len_num0 len_num1 len_bit0 mult_2 one_add_one numeral_plus_numeral semiring_norm)
  have "(2 ^ k :: size_t) = word_of_nat (2 ^ k)" by simp
  then have "unat (2 ^ k :: size_t) = 2 ^ k mod 2 ^ LENGTH(64)" by (simp only: unat_of_nat)
  also have "\<dots> = 2 ^ k" using lt by (rule mod_less)
  finally show ?thesis .
qed

lemma unat_mask_plus_one: "k < 64 \<Longrightarrow> unat (mask k + 1 :: size_t) = 2 ^ k"
  by (simp add: mask_eq_decr_exp unat_pow2_size)

lemma unat_chunk_td:
  assumes "k < 64" and "unat (mo :: size_t) < 2 ^ k" and "unat (i :: size_t) < unat (n :: size_t)"
  shows "unat (min (mask k + 1 - mo) (n - i)) = min (2 ^ k - unat mo) (unat n - unat i)"
proof -
  have a: "unat (mask k + 1 - mo) = 2 ^ k - unat mo"
    using assms(1,2) by (simp add: unat_sub_if_size unat_mask_plus_one)
  have b: "unat (n - i) = unat n - unat i"
    using assms(3) by (simp add: unat_sub_if_size)
  show ?thesis by (simp only: unat_min_word a b)
qed

lemma block_loop_unfold:
  assumes "ls_i st < samplesToDo"
    and "chunk_loop processOne flt feedGain samplesIn
          (min (bufmask + 1 - max (ls_offset (mask_indices bufmask st))
                  (max (ls_tap1 (mask_indices bufmask st)) (ls_tap2 (mask_indices bufmask st))))
               (samplesToDo - ls_i st))
          (mask_indices bufmask st) = Inr st2"
  shows "block_loop processOne flt feedGain samplesIn samplesToDo bufmask st =
     block_loop processOne flt feedGain samplesIn samplesToDo bufmask st2"
  using assms by (subst block_loop.simps) (simp add: Let_def mask_indices_def)

lemma block_loop_done:
  assumes "\<not> ls_i st < samplesToDo"
  shows "block_loop processOne flt feedGain samplesIn samplesToDo bufmask st = Some (Inr st)"
  using assms by (subst block_loop.simps) simp

lemma mask_indices_fields:
  "ls_i (mask_indices bufmask st) = ls_i st"
  "ls_delaybuf (mask_indices bufmask st) = ls_delaybuf st"
  "ls_temp0 (mask_indices bufmask st) = ls_temp0 st"
  "ls_temp1 (mask_indices bufmask st) = ls_temp1 st"
  "ls_z1 (mask_indices bufmask st) = ls_z1 st"
  "ls_z2 (mask_indices bufmask st) = ls_z2 st"
  "ls_offset (mask_indices bufmask st) = ls_offset st AND bufmask"
  "ls_tap1 (mask_indices bufmask st) = ls_tap1 st AND bufmask"
  "ls_tap2 (mask_indices bufmask st) = ls_tap2 st AND bufmask"
  by (simp_all add: mask_indices_def)

lemma block_loop_ok:
  fixes st :: "('a::{plus,times}) loop_state"
  assumes "k < 64" and "samplesIn \<noteq> []"
    and "unat (ls_i st) \<le> unat (samplesToDo :: size_t)"
    and "unat samplesToDo \<le> length (samplesIn ! 0)"
    and "unat samplesToDo \<le> length (ls_temp0 st)"
    and "unat samplesToDo \<le> length (ls_temp1 st)"
    and "length (ls_delaybuf st) = 2 ^ k"
  shows "\<exists>st'. block_loop processOne flt feedGain samplesIn samplesToDo (mask k) st = Some (Inr st') \<and>
     reference_iter processOne flt feedGain samplesIn (mask k)
       (unat samplesToDo - unat (ls_i st)) (mask_indices (mask k) st)
       = Inr (mask_indices (mask k) st') \<and>
     ls_i st' = samplesToDo \<and>
     (unat (ls_offset st) \<le> 2 ^ k \<or> unat (ls_i st) < unat samplesToDo
        \<longrightarrow> unat (ls_offset st') \<le> 2 ^ k) \<and>
     length (ls_delaybuf st') = length (ls_delaybuf st) \<and>
     length (ls_temp0 st') = length (ls_temp0 st) \<and>
     length (ls_temp1 st') = length (ls_temp1 st)"
  using assms
proof (induction "unat samplesToDo - unat (ls_i st)" arbitrary: st rule: less_induct)
  case less
  show ?case
  proof (cases "ls_i st < samplesToDo")
    case False
    with less.prems(3) have eq: "ls_i st = samplesToDo"
      by (simp add: word_less_nat_alt word_unat_eq_iff)
    have "block_loop processOne flt feedGain samplesIn samplesToDo (mask k) st = Some (Inr st)"
      using False by (rule block_loop_done)
    then show ?thesis using eq by simp
  next
    case True
    then have lt: "unat (ls_i st) < unat samplesToDo" by (simp add: word_less_nat_alt)
    define st1 where "st1 = mask_indices (mask k) st"
    define mo where "mo = max (ls_offset st1) (max (ls_tap1 st1) (ls_tap2 st1))"
    define td where "td = min (mask k + 1 - mo) (samplesToDo - ls_i st)"
    have r: "unat (ls_offset st1) < 2 ^ k" "unat (ls_tap1 st1) < 2 ^ k" "unat (ls_tap2 st1) < 2 ^ k"
      unfolding st1_def mask_indices_fields using less.prems(1) by (simp_all add: unat_and_mask_less)
    have umo: "unat mo = max (unat (ls_offset st1)) (max (unat (ls_tap1 st1)) (unat (ls_tap2 st1)))"
      unfolding mo_def by (simp only: unat_max_word)
    have mo: "unat mo < 2 ^ k" unfolding umo using r by simp
    have o: "unat (ls_offset st1) \<le> unat mo" "unat (ls_tap1 st1) \<le> unat mo"
      "unat (ls_tap2 st1) \<le> unat mo"
      unfolding umo by simp_all
    have td: "unat td = min (2 ^ k - unat mo) (unat samplesToDo - unat (ls_i st))"
      unfolding td_def using less.prems(1) mo lt by (rule unat_chunk_td)
    have "0 < unat td" unfolding td using mo lt by simp
    then obtain m where m: "unat td = Suc m" by (cases "unat td") simp_all
    have le: "Suc m \<le> 2 ^ k - unat mo" "Suc m \<le> unat samplesToDo - unat (ls_i st)"
      using td m by simp_all
    have i1: "ls_i st1 = ls_i st" "ls_delaybuf st1 = ls_delaybuf st"
      "ls_temp0 st1 = ls_temp0 st" "ls_temp1 st1 = ls_temp1 st"
      unfolding st1_def by (simp_all add: mask_indices_fields)
    have "\<exists>st2. chunk_loop processOne flt feedGain samplesIn td st1 = Inr st2 \<and>
       reference_iter processOne flt feedGain samplesIn (mask k) (Suc m) (mask_indices (mask k) st1)
         = Inr (mask_indices (mask k) st2) \<and>
       unat (ls_i st2) = unat (ls_i st1) + Suc m \<and>
       unat (ls_offset st2) = unat (ls_offset st1) + Suc m \<and>
       unat (ls_tap1 st2) = unat (ls_tap1 st1) + Suc m \<and>
       unat (ls_tap2 st2) = unat (ls_tap2 st1) + Suc m \<and>
       length (ls_delaybuf st2) = length (ls_delaybuf st1) \<and>
       length (ls_temp0 st2) = length (ls_temp0 st1) \<and>
       length (ls_temp1 st2) = length (ls_temp1 st1)"
    proof (rule chunk_loop_ok [OF m less.prems(1,2), where samplesToDo = samplesToDo])
      show "unat (ls_i st1) + Suc m \<le> unat samplesToDo" unfolding i1 using le(2) lt by linarith
      show "unat samplesToDo \<le> length (samplesIn ! 0)" by (rule less.prems(4))
      show "unat samplesToDo \<le> length (ls_temp0 st1)" unfolding i1 by (rule less.prems(5))
      show "unat samplesToDo \<le> length (ls_temp1 st1)" unfolding i1 by (rule less.prems(6))
      show "length (ls_delaybuf st1) = 2 ^ k" unfolding i1 by (rule less.prems(7))
      show "unat (ls_offset st1) + Suc m \<le> 2 ^ k" using le(1) o(1) mo by linarith
      show "unat (ls_tap1 st1) + Suc m \<le> 2 ^ k" using le(1) o(2) mo by linarith
      show "unat (ls_tap2 st1) + Suc m \<le> 2 ^ k" using le(1) o(3) mo by linarith
    qed
    then obtain st2 where
      c: "chunk_loop processOne flt feedGain samplesIn td st1 = Inr st2" and
      ri: "reference_iter processOne flt feedGain samplesIn (mask k) (Suc m) (mask_indices (mask k) st1)
         = Inr (mask_indices (mask k) st2)" and
      u: "unat (ls_i st2) = unat (ls_i st1) + Suc m"
         "unat (ls_offset st2) = unat (ls_offset st1) + Suc m" and
      l: "length (ls_delaybuf st2) = length (ls_delaybuf st1)"
         "length (ls_temp0 st2) = length (ls_temp0 st1)"
         "length (ls_temp1 st2) = length (ls_temp1 st1)"
      by blast
    have ri': "reference_iter processOne flt feedGain samplesIn (mask k) (Suc m) (mask_indices (mask k) st)
         = Inr (mask_indices (mask k) st2)"
      using ri unfolding st1_def mask_indices_idem .
    have b: "block_loop processOne flt feedGain samplesIn samplesToDo (mask k) st =
        block_loop processOne flt feedGain samplesIn samplesToDo (mask k) st2"
      using True c [unfolded td_def mo_def st1_def] by (rule block_loop_unfold)
    have o2: "unat (ls_offset st2) \<le> 2 ^ k" using u(2) le(1) o(1) by linarith
    have i2: "unat (ls_i st2) \<le> unat samplesToDo" using u(1) le(2) lt unfolding i1 by linarith
    have less2: "unat samplesToDo - unat (ls_i st2) < unat samplesToDo - unat (ls_i st)"
      using u(1) le(2) lt unfolding i1 by linarith
    have split: "unat samplesToDo - unat (ls_i st) = Suc m + (unat samplesToDo - unat (ls_i st2))"
      using u(1) le(2) unfolding i1 by linarith
    have "\<exists>st'. block_loop processOne flt feedGain samplesIn samplesToDo (mask k) st2 = Some (Inr st') \<and>
       reference_iter processOne flt feedGain samplesIn (mask k)
         (unat samplesToDo - unat (ls_i st2)) (mask_indices (mask k) st2)
         = Inr (mask_indices (mask k) st') \<and>
       ls_i st' = samplesToDo \<and>
       (unat (ls_offset st2) \<le> 2 ^ k \<or> unat (ls_i st2) < unat samplesToDo
          \<longrightarrow> unat (ls_offset st') \<le> 2 ^ k) \<and>
       length (ls_delaybuf st') = length (ls_delaybuf st2) \<and>
       length (ls_temp0 st') = length (ls_temp0 st2) \<and>
       length (ls_temp1 st') = length (ls_temp1 st2)"
    proof (rule less.hyps [OF less2 less.prems(1,2) i2 less.prems(4)])
      show "unat samplesToDo \<le> length (ls_temp0 st2)" unfolding l i1 by (rule less.prems(5))
      show "unat samplesToDo \<le> length (ls_temp1 st2)" unfolding l i1 by (rule less.prems(6))
      show "length (ls_delaybuf st2) = 2 ^ k" unfolding l i1 by (rule less.prems(7))
    qed
    then obtain st' where s:
      "block_loop processOne flt feedGain samplesIn samplesToDo (mask k) st2 = Some (Inr st')"
      "reference_iter processOne flt feedGain samplesIn (mask k)
         (unat samplesToDo - unat (ls_i st2)) (mask_indices (mask k) st2)
         = Inr (mask_indices (mask k) st')"
      "ls_i st' = samplesToDo" "unat (ls_offset st') \<le> 2 ^ k"
      "length (ls_delaybuf st') = length (ls_delaybuf st2)"
      "length (ls_temp0 st') = length (ls_temp0 st2)"
      "length (ls_temp1 st') = length (ls_temp1 st2)"
      using o2 by blast
    have rr: "reference_iter processOne flt feedGain samplesIn (mask k)
       (unat samplesToDo - unat (ls_i st)) (mask_indices (mask k) st)
       = Inr (mask_indices (mask k) st')"
      unfolding split reference_iter_add ri' using s(2) by simp
    show ?thesis
      unfolding b using s(1,3,4,5,6,7) rr l i1 by (intro exI [of _ st']) simp
  qed
qed

subsection \<open>The whole block\<close>

lemma process_both:
  fixes s :: "('a::{plus,times}, 'c, 'b) EchoState"
  assumes "length (mSampleBuffer s) = 2 ^ k" and "k < 64" and "samplesIn \<noteq> []"
    and "unat samplesToDo \<le> length (samplesIn ! 0)"
    and "unat samplesToDo \<le> length (fst (mTempBuffer s))"
    and "unat samplesToDo \<le> length (snd (mTempBuffer s))"
  shows "\<exists>s' out. process processOne MixSamples samplesToDo samplesIn samplesOut s
        = Some (Inr (s', out)) \<and>
     process_reference processOne MixSamples samplesToDo samplesIn samplesOut s
        = Inr (s'\<lparr>mOffset := mOffset s' AND (word_of_nat (length (mSampleBuffer s)) - 1)\<rparr>, out) \<and>
     (0 < samplesToDo \<longrightarrow> unat (mOffset s') \<le> length (mSampleBuffer s)) \<and>
     length (mSampleBuffer s') = length (mSampleBuffer s)"
proof -
  define st0 :: "'a loop_state" where "st0 =
    \<lparr>ls_i = 0, ls_offset = mOffset s, ls_tap1 = mOffset s - fst (mDelayTap s),
     ls_tap2 = mOffset s - snd (mDelayTap s), ls_delaybuf = mSampleBuffer s,
     ls_temp0 = fst (mTempBuffer s), ls_temp1 = snd (mTempBuffer s),
     ls_z1 = mZ1 (mFilter s), ls_z2 = mZ2 (mFilter s)\<rparr>"
  have bm: "word_of_nat (length (mSampleBuffer s)) - 1 = (mask k :: size_t)"
    unfolding assms(1) using assms(2) by (rule bufmask_eq)
  have f0: "ls_i st0 = 0" "ls_temp0 st0 = fst (mTempBuffer s)" "ls_temp1 st0 = snd (mTempBuffer s)"
    "ls_delaybuf st0 = mSampleBuffer s"
    by (simp_all add: st0_def)
  have "\<exists>st'. block_loop processOne (mFilter s) (mFeedGain s) samplesIn samplesToDo (mask k) st0
        = Some (Inr st') \<and>
     reference_iter processOne (mFilter s) (mFeedGain s) samplesIn (mask k)
       (unat samplesToDo - unat (ls_i st0)) (mask_indices (mask k) st0)
       = Inr (mask_indices (mask k) st') \<and>
     ls_i st' = samplesToDo \<and>
     (unat (ls_offset st0) \<le> 2 ^ k \<or> unat (ls_i st0) < unat samplesToDo
        \<longrightarrow> unat (ls_offset st') \<le> 2 ^ k) \<and>
     length (ls_delaybuf st') = length (ls_delaybuf st0) \<and>
     length (ls_temp0 st') = length (ls_temp0 st0) \<and>
     length (ls_temp1 st') = length (ls_temp1 st0)"
  proof (rule block_loop_ok [OF assms(2,3)])
    show "unat (ls_i st0) \<le> unat samplesToDo" unfolding f0 by simp
    show "unat samplesToDo \<le> length (samplesIn ! 0)" by (rule assms(4))
    show "unat samplesToDo \<le> length (ls_temp0 st0)" unfolding f0 by (rule assms(5))
    show "unat samplesToDo \<le> length (ls_temp1 st0)" unfolding f0 by (rule assms(6))
    show "length (ls_delaybuf st0) = 2 ^ k" unfolding f0 by (rule assms(1))
  qed
  then obtain st' where
    b: "block_loop processOne (mFilter s) (mFeedGain s) samplesIn samplesToDo (mask k) st0
        = Some (Inr st')" and
    r: "reference_loop processOne (mFilter s) (mFeedGain s) samplesIn samplesToDo (mask k) st0
        = Inr (mask_indices (mask k) st')" and
    o: "unat (ls_i st0) < unat samplesToDo \<longrightarrow> unat (ls_offset st') \<le> 2 ^ k" and
    l: "length (ls_delaybuf st') = length (mSampleBuffer s)"
       "length (ls_temp0 st') = length (fst (mTempBuffer s))"
       "length (ls_temp1 st') = length (snd (mTempBuffer s))"
    unfolding reference_loop_def f0 by blast
  have o': "0 < samplesToDo \<longrightarrow> unat (ls_offset st') \<le> length (mSampleBuffer s)"
    using o unfolding f0 assms(1) by (simp add: word_less_nat_alt)
  have t: "unat samplesToDo \<le> length (ls_temp0 st')" "unat samplesToDo \<le> length (ls_temp1 st')"
    unfolding l by (rule assms(5), rule assms(6))
  show ?thesis
    unfolding process_def process_reference_def Let_def getComponents_def bm prod.case
      st0_def [symmetric] b r
    using t o' l(1)
    by (simp add: mask_indices_fields split_def)
qed

lemma reference_iter_numeral:
  "reference_iter processOne flt feedGain samplesIn bufmask (numeral n) st =
   reference_iter processOne flt feedGain samplesIn bufmask (Suc (pred_numeral n)) st"
  by (simp only: numeral_eq_Suc)

text \<open>
  Claim C4, as the code has it. On a buffer whose length \<open>N\<close> is a power of two, with input
  and temporary lines of at least \<open>samplesToDo\<close> samples, \<open>process\<close> ends and ends without
  an access outside a buffer: every index is within \<open>[0, N)\<close> when it is used. The indices
  are masked at the start of each sub-chunk only, so the write cursor stored back at the end
  is at most \<open>N\<close>; it can be \<open>N\<close> itself.
\<close>
theorem process_in_bounds:
  fixes s :: "('a::{plus,times}, 'c, 'b) EchoState"
  assumes "length (mSampleBuffer s) = 2 ^ k" and "k < 64" and "0 < samplesToDo"
    and "samplesIn \<noteq> []"
    and "unat samplesToDo \<le> length (samplesIn ! 0)"
    and "unat samplesToDo \<le> length (fst (mTempBuffer s))"
    and "unat samplesToDo \<le> length (snd (mTempBuffer s))"
  shows "\<exists>s' out. process processOne MixSamples samplesToDo samplesIn samplesOut s
        = Some (Inr (s', out)) \<and>
     unat (mOffset s') \<le> length (mSampleBuffer s) \<and>
     length (mSampleBuffer s') = length (mSampleBuffer s)"
  using process_both [OF assms(1,2,4,5,6,7), of processOne MixSamples samplesOut] assms(3)
  by blast

text \<open>
  Witness of C4: a buffer of four samples, the cursor at 3, tap offsets 1 and 2, two
  samples to do. The cursor stored back is 1.
\<close>
theorem process_in_bounds_witness:
  "length (mSampleBuffer ((EchoState_new 1 2 () () :: (real, unit, unit) EchoState)
           \<lparr>mSampleBuffer := [0, 0, 0, 0], mDelayTap := (1, 2), mOffset := 3, mFeedGain := 1/2,
             mTempBuffer := ([0, 0], [0, 0])\<rparr>)) = 2 ^ 2 \<and> (0 :: size_t) < 2 \<and>
   map_option (map_sum id (\<lambda>r. (mOffset (fst r), length (mSampleBuffer (fst r)))))
     (process (\<lambda>f x z1 z2. (x, z1, z2)) (\<lambda>ins out cur tgt n pos. (out, tgt)) 2 [[1, 0]] ()
        ((EchoState_new 1 2 () () :: (real, unit, unit) EchoState)
           \<lparr>mSampleBuffer := [0, 0, 0, 0], mDelayTap := (1, 2), mOffset := 3, mFeedGain := 1/2,
             mTempBuffer := ([0, 0], [0, 0])\<rparr>))
   = Some (Inr (1, 4))"
  using process_in_bounds [where s = "((EchoState_new 1 2 () () :: (real, unit, unit) EchoState)
           \<lparr>mSampleBuffer := [0, 0, 0, 0], mDelayTap := (1, 2), mOffset := 3, mFeedGain := 1/2,
             mTempBuffer := ([0, 0], [0, 0])\<rparr>)"
      and k = 2 and samplesToDo = 2 and samplesIn = "[[1, 0]]"
      and processOne = "\<lambda>f x z1 z2. (x, z1, z2)"
      and MixSamples = "\<lambda>ins out cur tgt n pos. (out, tgt)" and samplesOut = "()"]
  by (simp add: process_def EchoState_new_def getComponents_def setComponents_def
      block_loop.simps chunk_loop.simps echo_sample_def Let_def)

text \<open>
  Counterexample to C4 as stated: with a buffer of four samples, the cursor at 3 and one
  sample to do, the cursor is incremented to 4 and stored back unmasked: it equals the
  length of the buffer and is not within \<open>[0, N)\<close>.
\<close>
theorem process_cursor_counterexample:
  "map_option (map_sum id (\<lambda>r. (mOffset (fst r), length (mSampleBuffer (fst r)))))
     (process (\<lambda>f x z1 z2. (x, z1, z2)) (\<lambda>ins out cur tgt n pos. (out, tgt)) 1 [[1, 0]] ()
        ((EchoState_new 1 2 () () :: (real, unit, unit) EchoState)
           \<lparr>mSampleBuffer := [0, 0, 0, 0], mDelayTap := (1, 2), mOffset := 3, mFeedGain := 1/2,
             mTempBuffer := ([0, 0], [0, 0])\<rparr>))
   = Some (Inr (4, 4))"
  by (simp add: process_def EchoState_new_def getComponents_def setComponents_def
      block_loop.simps chunk_loop.simps echo_sample_def Let_def)

text \<open>
  Claim C5. On a buffer whose length \<open>N\<close> is a power of two, with input and temporary lines
  of at least \<open>samplesToDo\<close> samples, the sub-chunked loop of \<open>process\<close> and the reference
  loop that masks the indices after every sample end in the same state (delay buffer,
  temporary lines, filter state, gains) and the same output, but for the write cursor: the
  reference's cursor is that of \<open>process\<close> masked with \<open>N - 1\<close>.
\<close>
theorem process_refines_reference:
  fixes s :: "('a::{plus,times}, 'c, 'b) EchoState"
  assumes "length (mSampleBuffer s) = 2 ^ k" and "k < 64"
    and "samplesIn \<noteq> []"
    and "unat samplesToDo \<le> length (samplesIn ! 0)"
    and "unat samplesToDo \<le> length (fst (mTempBuffer s))"
    and "unat samplesToDo \<le> length (snd (mTempBuffer s))"
  shows "\<exists>s' out. process processOne MixSamples samplesToDo samplesIn samplesOut s
        = Some (Inr (s', out)) \<and>
     process_reference processOne MixSamples samplesToDo samplesIn samplesOut s
        = Inr (s'\<lparr>mOffset := mOffset s' AND (word_of_nat (length (mSampleBuffer s)) - 1)\<rparr>, out)"
  using process_both [OF assms, of processOne MixSamples samplesOut]
  by blast

text \<open>
  Witness of C5: a buffer of eight samples holding 1 to 8, the cursor at 6, tap offsets 1 and
  2, a feedback gain of 2, a filter with a running state and ten samples to do. \<open>process\<close>
  runs four sub-chunks of 2, 1, 1 and 6 samples, each of the three indices wraps around,
  and the taps and the feedback read non-zero samples. \<open>process\<close> stores the cursor 8, the
  reference stores 0; everything else agrees.
\<close>
theorem process_refines_reference_witness:
  "process (\<lambda>f x z1 z2. (x + z1, z2, x)) (\<lambda>ins out cur tgt n pos. (out, tgt)) 10
        [[1, 2, 3, 4, 5, 6, 7, 8, 9, 10]] ()
        ((EchoState_new 1 10 () () :: (int, unit, unit) EchoState)
           \<lparr>mSampleBuffer := [1, 2, 3, 4, 5, 6, 7, 8], mDelayTap := (1, 2), mOffset := 6,
             mFeedGain := 2,
             mTempBuffer := ([0, 0, 0, 0, 0, 0, 0, 0, 0, 0], [0, 0, 0, 0, 0, 0, 0, 0, 0, 0])\<rparr>)
   = Some (Inr ((EchoState_new 1 10 () () :: (int, unit, unit) EchoState)
           \<lparr>mSampleBuffer := [35, 44, 97, 122, 271, 340, 745, 934], mDelayTap := (1, 2),
             mOffset := 8, mFeedGain := 2,
             mTempBuffer := ([6, 11, 14, 35, 44, 97, 122, 271, 340, 745],
                             [5, 6, 11, 14, 35, 44, 97, 122, 271, 340]),
             mFilter := \<lparr>coeffs = (), mZ1 = 271, mZ2 = 340\<rparr>\<rparr>, ())) \<and>
   process_reference (\<lambda>f x z1 z2. (x + z1, z2, x)) (\<lambda>ins out cur tgt n pos. (out, tgt)) 10
        [[1, 2, 3, 4, 5, 6, 7, 8, 9, 10]] ()
        ((EchoState_new 1 10 () () :: (int, unit, unit) EchoState)
           \<lparr>mSampleBuffer := [1, 2, 3, 4, 5, 6, 7, 8], mDelayTap := (1, 2), mOffset := 6,
             mFeedGain := 2,
             mTempBuffer := ([0, 0, 0, 0, 0, 0, 0, 0, 0, 0], [0, 0, 0, 0, 0, 0, 0, 0, 0, 0])\<rparr>)
   = Inr ((EchoState_new 1 10 () () :: (int, unit, unit) EchoState)
           \<lparr>mSampleBuffer := [35, 44, 97, 122, 271, 340, 745, 934], mDelayTap := (1, 2),
             mOffset := 0, mFeedGain := 2,
             mTempBuffer := ([6, 11, 14, 35, 44, 97, 122, 271, 340, 745],
                             [5, 6, 11, 14, 35, 44, 97, 122, 271, 340]),
             mFilter := \<lparr>coeffs = (), mZ1 = 271, mZ2 = 340\<rparr>\<rparr>, ())"
proof -
  let ?s = "(EchoState_new 1 10 () () :: (int, unit, unit) EchoState)
           \<lparr>mSampleBuffer := [1, 2, 3, 4, 5, 6, 7, 8], mDelayTap := (1, 2), mOffset := 6,
             mFeedGain := 2,
             mTempBuffer := ([0, 0, 0, 0, 0, 0, 0, 0, 0, 0], [0, 0, 0, 0, 0, 0, 0, 0, 0, 0])\<rparr>"
  let ?po = "\<lambda>(f :: (int, unit) BiquadFilter) (x :: int) (z1 :: int) (z2 :: int). (x + z1, z2, x)"
  let ?mix = "\<lambda>(ins :: int list) (out :: unit) (cur :: int list) (tgt :: int list)
                (n :: size_t) (pos :: size_t). (out, tgt)"
  have h: "length (mSampleBuffer ?s) = 2 ^ 3" "(3::nat) < 64"
    "[[1, 2, 3, 4, 5, 6, 7, 8, 9, 10 :: int]] \<noteq> []"
    "unat (10 :: size_t) \<le> length ([[1, 2, 3, 4, 5, 6, 7, 8, 9, 10 :: int]] ! 0)"
    "unat (10 :: size_t) \<le> length (fst (mTempBuffer ?s))"
    "unat (10 :: size_t) \<le> length (snd (mTempBuffer ?s))"
    by (simp_all add: EchoState_new_def)
  have p: "process ?po ?mix 10 [[1, 2, 3, 4, 5, 6, 7, 8, 9, 10]] () ?s
     = Some (Inr ((EchoState_new 1 10 () () :: (int, unit, unit) EchoState)
           \<lparr>mSampleBuffer := [35, 44, 97, 122, 271, 340, 745, 934], mDelayTap := (1, 2),
             mOffset := 8, mFeedGain := 2,
             mTempBuffer := ([6, 11, 14, 35, 44, 97, 122, 271, 340, 745],
                             [5, 6, 11, 14, 35, 44, 97, 122, 271, 340]),
             mFilter := \<lparr>coeffs = (), mZ1 = 271, mZ2 = 340\<rparr>\<rparr>, ()))"
    by (simp add: process_def EchoState_new_def getComponents_def setComponents_def
        block_loop.simps chunk_loop.simps echo_sample_def Let_def)
  from process_refines_reference [OF h, of ?po ?mix "()"] obtain s' out where
    a: "process ?po ?mix 10 [[1, 2, 3, 4, 5, 6, 7, 8, 9, 10]] () ?s = Some (Inr (s', out))" and
    b: "process_reference ?po ?mix 10 [[1, 2, 3, 4, 5, 6, 7, 8, 9, 10]] () ?s
        = Inr (s'\<lparr>mOffset := mOffset s' AND (word_of_nat (length (mSampleBuffer ?s)) - 1)\<rparr>, out)"
    by blast
  from a p have s': "s' = (EchoState_new 1 10 () () :: (int, unit, unit) EchoState)
           \<lparr>mSampleBuffer := [35, 44, 97, 122, 271, 340, 745, 934], mDelayTap := (1, 2),
             mOffset := 8, mFeedGain := 2,
             mTempBuffer := ([6, 11, 14, 35, 44, 97, 122, 271, 340, 745],
                             [5, 6, 11, 14, 35, 44, 97, 122, 271, 340]),
             mFilter := \<lparr>coeffs = (), mZ1 = 271, mZ2 = 340\<rparr>\<rparr>" and out: "out = ()"
    by simp_all
  show ?thesis
    unfolding p b unfolding s' by (simp add: EchoState_new_def)
qed

section \<open>Silence after a device update\<close>








end
